theory Spec2Isabelle
  imports Main
begin

section \<open>Storage volume resource of the Redfish provider\<close>

text \<open>
  Embedding of \<^verbatim>\<open>redfish/resource_redfish_storage_volume.go\<close>. Go strings are
  \<open>string\<close>, Go \<^verbatim>\<open>int\<close> values are \<open>int\<close> (they are only passed on, never
  computed with), slices are lists, and a function returning \<^verbatim>\<open>(T, error)\<close>
  returns \<open>go_error + T\<close> with \<open>Inl\<close> the error.
\<close>

subsection \<open>Errors and diagnostics\<close>

text \<open>
  An \<^verbatim>\<open>error\<close> is either a \<^verbatim>\<open>*redfishcommon.Error\<close> of the gofish library,
  which carries the HTTP status code of the response (its \<^verbatim>\<open>Error()\<close> text is the
  second field), or any other error, of which only the text matters
  (\<^verbatim>\<open>fmt.Errorf\<close> builds these).
\<close>

datatype go_error = RedfishError int string | PlainError string

fun Error :: "go_error \<Rightarrow> string" where
  "Error (RedfishError code msg) = msg"
| "Error (PlainError msg) = msg"

datatype severity = SevError | SevWarning

record diagnostic =
  Severity :: severity
  Summary :: string

type_synonym diagnostics = "diagnostic list"

definition diag_Errorf :: "string \<Rightarrow> diagnostics" where
  "diag_Errorf msg = [\<lparr>Severity = SevError, Summary = msg\<rparr>]"

definition HasError :: "diagnostics \<Rightarrow> bool" where
  "HasError ds = list_ex (\<lambda>d. Severity d = SevError) ds"

subsection \<open>Entities of the management API\<close>

record drive =
  Drive_Name :: string
  Drive_ODataID :: string

record volume =
  Volume_Name :: string
  Volume_ODataID :: string

record storage =
  Storage_ID :: string
  Storage_Name :: string
  Storage_ODataID :: string

record computer_system =
  System_Name :: string

subsection \<open>Pure helpers\<close>

text \<open>\<^verbatim>\<open>getStorageController\<close>: the first controller whose ID is the requested one.\<close>

fun getStorageController :: "storage list \<Rightarrow> string \<Rightarrow> go_error + storage" where
  "getStorageController [] diskControllerID =
     Inl (PlainError (''error. Didn't find the storage controller '' @ diskControllerID))"
| "getStorageController (s # storageControllers) diskControllerID =
     (if Storage_ID s = diskControllerID then Inr s
      else getStorageController storageControllers diskControllerID)"

text \<open>
  \<^verbatim>\<open>getDrives\<close>: the outer loop runs over the drives, the inner one over the
  requested names, appending the drive at every equal pair.
\<close>

fun getDrives_names :: "drive \<Rightarrow> string list \<Rightarrow> drive list \<Rightarrow> drive list" where
  "getDrives_names v [] drivesToReturn = drivesToReturn"
| "getDrives_names v (w # driveNames) drivesToReturn =
     getDrives_names v driveNames
       (if Drive_Name v = w then drivesToReturn @ [v] else drivesToReturn)"

fun getDrives_loop :: "drive list \<Rightarrow> string list \<Rightarrow> drive list \<Rightarrow> drive list" where
  "getDrives_loop [] driveNames drivesToReturn = drivesToReturn"
| "getDrives_loop (v # drives) driveNames drivesToReturn =
     getDrives_loop drives driveNames (getDrives_names v driveNames drivesToReturn)"

definition getDrives :: "drive list \<Rightarrow> string list \<Rightarrow> go_error + drive list" where
  "getDrives drives driveNames =
     (let drivesToReturn = getDrives_loop drives driveNames [] in
      if length driveNames \<noteq> length drivesToReturn
      then Inl (PlainError ''any of the drives you inserted doesn't exist'')
      else Inr drivesToReturn)"

text \<open>\<^verbatim>\<open>getVolumeID\<close>: returns from inside the loop at the first volume of that name.\<close>

fun getVolumeID :: "volume list \<Rightarrow> string \<Rightarrow> go_error + string" where
  "getVolumeID [] volumeName =
     Inl (PlainError ''couldn't find a volume with the provided name'')"
| "getVolumeID (v # volumes) volumeName =
     (if Volume_Name v = volumeName then Inr (Volume_ODataID v)
      else getVolumeID volumes volumeName)"

fun checkOperationApplyTimes :: "string \<Rightarrow> string list \<Rightarrow> bool" where
  "checkOperationApplyTimes optionToCheck [] = False"
| "checkOperationApplyTimes optionToCheck (v # storageOperationApplyTimes) =
     (if optionToCheck = v then True
      else checkOperationApplyTimes optionToCheck storageOperationApplyTimes)"

subsection \<open>Constants\<close>

definition defaultStorageVolumeResetTimeout :: int where
  "defaultStorageVolumeResetTimeout = 120"

definition defaultStorageVolumeJobTimeout :: int where
  "defaultStorageVolumeJobTimeout = 1200"

definition intervalStorageVolumeJobCheckTime :: int where
  "intervalStorageVolumeJobCheckTime = 10"

definition StatusAccepted :: int where
  "StatusAccepted = 202"

definition StatusNotFound :: int where
  "StatusNotFound = 404"

definition ImmediateApplyTime :: string where
  "ImmediateApplyTime = ''Immediate''"

definition OnResetApplyTime :: string where
  "OnResetApplyTime = ''OnReset''"

subsection \<open>Requests and responses\<close>

text \<open>
  A request body is a Go map from strings to values, sent as JSON. The keys are listed in
  the order in which the source assigns them.
\<close>

datatype json = JNull | JString string | JInt int | JObject "(string \<times> json) list" | JArray "json list"

text \<open>
  Of a response the code reads the status code and the headers.
  \<^verbatim>\<open>Header.Get\<close> gives the first value stored under the key, and the empty string
  when there is none.
\<close>

record http_response =
  StatusCode :: int
  Header :: "string \<rightharpoonup> string list"

definition Header_Get :: "(string \<rightharpoonup> string list) \<Rightarrow> string \<Rightarrow> string" where
  "Header_Get h key = (case h key of None \<Rightarrow> [] | Some [] \<Rightarrow> [] | Some (v # vs) \<Rightarrow> v)"

text \<open>\<^verbatim>\<open>%d\<close> of \<^verbatim>\<open>fmt\<close>: an integer in decimal.\<close>

fun Sprint_nat :: "nat \<Rightarrow> string" where
  "Sprint_nat n =
     (if n < 10 then [''0123456789'' ! n]
      else Sprint_nat (n div 10) @ [''0123456789'' ! (n mod 10)])"

definition Sprint_d :: "int \<Rightarrow> string" where
  "Sprint_d i = (if i < 0 then CHR ''-'' # Sprint_nat (nat (- i)) else Sprint_nat (nat i))"

subsection \<open>The outside world\<close>

text \<open>
  Every call that leaves the function (to the mutex table, the gofish client, the power
  helper and the job poller) is recorded as an event, in the order of the calls.
\<close>

datatype event =
    Lock string
  | Unlock string
  | Systems
  | Storage string
  | GetOperationApplyTimeValues string
  | Drives string
  | Volumes string
  | GetVolume string
  | Post string json
  | Patch string json
  | Delete string
  | PowerOperation string int int
  | WaitForJobToFinish string int int

text \<open>
  What the callee answers is given by the environment. Each answer may depend on all the
  calls made so far, so a controller with state is covered. The mutex table
  \<^verbatim>\<open>redfishMutexKV\<close>, \<^verbatim>\<open>PowerOperation\<close>,
  \<^verbatim>\<open>common.WaitForJobToFinish\<close> and the constant
  \<^verbatim>\<open>intervalSimpleUpdateJobCheckTime\<close> belong to other files of the package:
  the calls are recorded, and what the last three give is a parameter here. One mutation is
  one sequential flow; a \<^verbatim>\<open>Lock\<close> that waits for another flow is not modelled.
\<close>

record env =
  env_Systems :: "event list \<Rightarrow> go_error + computer_system list"
  env_Storage :: "event list \<Rightarrow> computer_system \<Rightarrow> go_error + storage list"
  env_GetOperationApplyTimeValues :: "event list \<Rightarrow> storage \<Rightarrow> go_error + string list"
  env_Drives :: "event list \<Rightarrow> storage \<Rightarrow> go_error + drive list"
  env_Volumes :: "event list \<Rightarrow> storage \<Rightarrow> go_error + volume list"
  env_GetVolume :: "event list \<Rightarrow> string \<Rightarrow> go_error + volume"
  env_Post :: "event list \<Rightarrow> string \<Rightarrow> json \<Rightarrow> go_error + http_response"
  env_Patch :: "event list \<Rightarrow> string \<Rightarrow> json \<Rightarrow> go_error + http_response"
  env_Delete :: "event list \<Rightarrow> string \<Rightarrow> go_error + http_response"
  env_PowerOperation :: "event list \<Rightarrow> string \<Rightarrow> int \<Rightarrow> int \<Rightarrow> diagnostics"
  env_WaitForJobToFinish :: "event list \<Rightarrow> string \<Rightarrow> int \<Rightarrow> int \<Rightarrow> go_error option"
  intervalSimpleUpdateJobCheckTime :: int

text \<open>
  The resource data \<^verbatim>\<open>d\<close>: the identifier, the endpoint that
  \<^verbatim>\<open>getRedfishServerEndpoint(d)\<close> reads, and the configured attributes that
  \<^verbatim>\<open>d.Get\<close> reads. An element of \<^verbatim>\<open>drives\<close> can be nil.
\<close>

record resource_data =
  Id :: string
  getRedfishServerEndpoint :: string
  Get_storage_controller_id :: string
  Get_volume_type :: string
  Get_volume_name :: string
  Get_optimum_io_size_bytes :: int
  Get_capacity_bytes :: int
  Get_drives :: "string option list"
  Get_read_cache_policy :: string
  Get_write_cache_policy :: string
  Get_disk_cache_policy :: string
  Get_settings_apply_time :: string
  Get_reset_type :: string
  Get_reset_timeout :: int
  Get_volume_job_timeout :: int

text \<open>A function returns its diagnostics, or panics (the deferred calls still run).\<close>

datatype outcome = Return diagnostics | Panic string

subsection \<open>Submitting a change\<close>

definition Oem_Dell :: "string \<Rightarrow> json" where
  "Oem_Dell diskCachePolicy =
     JObject [(''Dell'', JObject [(''DellVolume'',
       JObject [(''DiskCachePolicy'', JString diskCachePolicy)])])]"

text \<open>\<^verbatim>\<open>listDrives\<close> starts as a nil slice, which is sent as null.\<close>

definition listDrives :: "drive list \<Rightarrow> json" where
  "listDrives drives =
     (if drives = [] then JNull
      else JArray (map (\<lambda>drive. JObject [(''@odata.id'', JString (Drive_ODataID drive))]) drives))"

definition createVolume_newVolume ::
  "string \<Rightarrow> string \<Rightarrow> int \<Rightarrow> int \<Rightarrow> string \<Rightarrow> string \<Rightarrow> string \<Rightarrow> drive list \<Rightarrow> string \<Rightarrow> json" where
  "createVolume_newVolume volumeType volumeName optimumIOSizeBytes capacityBytes
     readCachePolicy writeCachePolicy diskCachePolicy drives applyTime =
     JObject
       [(''VolumeType'', JString volumeType),
        (''DisplayName'', JString volumeName),
        (''Name'', JString volumeName),
        (''ReadCachePolicy'', JString readCachePolicy),
        (''WriteCachePolicy'', JString writeCachePolicy),
        (''CapacityBytes'', JInt capacityBytes),
        (''OptimumIOSizeBytes'', JInt optimumIOSizeBytes),
        (''Oem'', Oem_Dell diskCachePolicy),
        (''@Redfish.OperationApplyTime'', JString applyTime),
        (''Drives'', listDrives drives)]"

definition createVolume ::
  "env \<Rightarrow> event list \<Rightarrow> string \<Rightarrow> string \<Rightarrow> string \<Rightarrow> int \<Rightarrow> int \<Rightarrow> string \<Rightarrow> string \<Rightarrow> string \<Rightarrow>
   drive list \<Rightarrow> string \<Rightarrow> (go_error + string) \<times> event list" where
  "createVolume service t storageLink volumeType volumeName optimumIOSizeBytes capacityBytes
     readCachePolicy writeCachePolicy diskCachePolicy drives applyTime =
     (let newVolume = createVolume_newVolume volumeType volumeName optimumIOSizeBytes
            capacityBytes readCachePolicy writeCachePolicy diskCachePolicy drives applyTime;
          volumesURL = storageLink @ ''/Volumes'';
          t' = t @ [Post volumesURL newVolume]
      in case env_Post service t volumesURL newVolume of
           Inl err \<Rightarrow> (Inl err, t')
         | Inr res \<Rightarrow>
             if StatusCode res \<noteq> StatusAccepted
             then (Inl (PlainError ''the query was unsucessfull''), t')
             else let jobID = Header_Get (Header res) ''Location'' in
               if length jobID = 0
               then (Inl (PlainError ''there was some error when retreiving the jobID''), t')
               else (Inr jobID, t'))"

definition updateVolume_payload :: "string \<Rightarrow> string \<Rightarrow> string \<Rightarrow> string \<Rightarrow> string \<Rightarrow> json" where
  "updateVolume_payload readCachePolicy writeCachePolicy volumeName diskCachePolicy applyTime =
     JObject
       [(''ReadCachePolicy'', JString readCachePolicy),
        (''WriteCachePolicy'', JString writeCachePolicy),
        (''DisplayName'', JString volumeName),
        (''Oem'', Oem_Dell diskCachePolicy),
        (''Name'', JString volumeName),
        (''@Redfish.SettingsApplyTime'', JObject [(''ApplyTime'', JString applyTime)])]"

definition updateVolume ::
  "env \<Rightarrow> event list \<Rightarrow> string \<Rightarrow> string \<Rightarrow> string \<Rightarrow> string \<Rightarrow> string \<Rightarrow> string \<Rightarrow>
   (go_error + string) \<times> event list" where
  "updateVolume service t storageLink readCachePolicy writeCachePolicy volumeName
     diskCachePolicy applyTime =
     (let payload = updateVolume_payload readCachePolicy writeCachePolicy volumeName
            diskCachePolicy applyTime;
          volumesURL = storageLink @ ''/Settings'';
          t' = t @ [Patch volumesURL payload]
      in case env_Patch service t volumesURL payload of
           Inl err \<Rightarrow> (Inl err, t')
         | Inr res \<Rightarrow>
             if StatusCode res \<noteq> StatusAccepted
             then (Inl (PlainError ''the query was unsucessfull''), t')
             else let jobID = Header_Get (Header res) ''Location'' in
               if length jobID = 0
               then (Inl (PlainError ''there was some error when retreiving the jobID''), t')
               else (Inr jobID, t'))"

definition deleteVolume :: "env \<Rightarrow> event list \<Rightarrow> string \<Rightarrow> (go_error + string) \<times> event list" where
  "deleteVolume service t volumeURI =
     (let t' = t @ [Delete volumeURI]
      in case env_Delete service t volumeURI of
           Inl err \<Rightarrow> (Inl (PlainError (''error while deleting the volume '' @ volumeURI)), t')
         | Inr res \<Rightarrow>
             if StatusCode res \<noteq> StatusAccepted
             then (Inl (PlainError
               ''the operation was not successful. Return code was different from 202 ACCEPTED''), t')
             else let jobID = Header_Get (Header res) ''Location'' in
               if length jobID = 0
               then (Inl (PlainError ''there was some error when retreiving the jobID''), t')
               else (Inr jobID, t'))"

subsection \<open>Reading\<close>

definition readRedfishStorageVolume ::
  "env \<Rightarrow> resource_data \<Rightarrow> event list \<Rightarrow> diagnostics \<times> resource_data \<times> event list" where
  "readRedfishStorageVolume service d t =
     (let diags = []; t' = t @ [GetVolume (Id d)]
      in case env_GetVolume service t (Id d) of
           Inl err \<Rightarrow>
             (case err of
                PlainError msg \<Rightarrow>
                  (diag_Errorf (''There was an error with the API: '' @ Error err), d, t')
              | RedfishError HTTPReturnedStatusCode msg \<Rightarrow>
                  if HTTPReturnedStatusCode = StatusNotFound
                  then (diags, d\<lparr>Id := ''''\<rparr>, t')
                  else (diag_Errorf (''Status code '' @ Sprint_d HTTPReturnedStatusCode @ '' - ''
                          @ Error err), d, t'))
         | Inr v \<Rightarrow> (diags, d, t'))"

subsection \<open>Mutations\<close>

text \<open>
  The loop that converts \<^verbatim>\<open>driveNamesRaw\<close> to strings; \<open>None\<close> when it meets a
  nil element.
\<close>

fun driveNames_of :: "string option list \<Rightarrow> string list option" where
  "driveNames_of [] = Some []"
| "driveNames_of (None # driveNamesRaw) = None"
| "driveNames_of (Some raw # driveNamesRaw) = map_option ((#) raw) (driveNames_of driveNamesRaw)"

text \<open>
  The body of \<^verbatim>\<open>createRedfishStorageVolume\<close> after the two mutex lines. It returns
  the outcome, the resource data (\<^verbatim>\<open>SetId\<close> changes it) and the events so far.
  \<^verbatim>\<open>systems[0]\<close> panics on an empty list. The \<^verbatim>\<open>switch\<close> on the apply
  time has the one case \<^verbatim>\<open>OnReset\<close>: \<open>resetDiags\<close> are the diagnostics of
  \<^verbatim>\<open>PowerOperation\<close> in that case and empty otherwise, so the test of
  \<^verbatim>\<open>HasError\<close> is the one inside the case. The update and the deletion below
  follow their functions in the same way.
\<close>

definition createRedfishStorageVolume_body ::
  "env \<Rightarrow> resource_data \<Rightarrow> event list \<Rightarrow> outcome \<times> resource_data \<times> event list" where
  "createRedfishStorageVolume_body service d t =
     (let storageID = Get_storage_controller_id d;
          volumeType = Get_volume_type d;
          volumeName = Get_volume_name d;
          optimumIOSizeBytes = Get_optimum_io_size_bytes d;
          capacityBytes = Get_capacity_bytes d;
          driveNamesRaw = Get_drives d;
          readCachePolicy = Get_read_cache_policy d;
          writeCachePolicy = Get_write_cache_policy d;
          diskCachePolicy = Get_disk_cache_policy d;
          applyTime = Get_settings_apply_time d
      in
      if length driveNamesRaw = 0
      then (Return (diag_Errorf ''Error when getting the drives: drives cannot be empty''), d, t)
      else
      (case driveNames_of driveNamesRaw of
         None \<Rightarrow>
           (Return (diag_Errorf ''Error when getting the drives: drive name cannot be blank''), d, t)
       | Some driveNames \<Rightarrow>
      (let volumeJobTimeout = Get_volume_job_timeout d;
           t1 = t @ [Systems]
       in
      (case env_Systems service t of
         Inl err \<Rightarrow>
           (Return (diag_Errorf ''Error when retreiving the Systems from the Redfish API''), d, t1)
       | Inr [] \<Rightarrow> (Panic ''index out of range [0] with length 0'', d, t1)
       | Inr (systems0 # systems) \<Rightarrow>
      (let t2 = t1 @ [Storage (System_Name systems0)] in
      (case env_Storage service t1 systems0 of
         Inl err \<Rightarrow>
           (Return (diag_Errorf (''Error when retreiving the Storage from '' @ System_Name systems0
              @ '' from the Redfish API'')), d, t2)
       | Inr storageControllers \<Rightarrow>
      (case getStorageController storageControllers storageID of
         Inl err \<Rightarrow>
           (Return (diag_Errorf (''Error when getting the storage struct: '' @ Error err)), d, t2)
       | Inr storage \<Rightarrow>
      (let t3 = t2 @ [GetOperationApplyTimeValues (Storage_ODataID storage)] in
      (case env_GetOperationApplyTimeValues service t2 storage of
         Inl err \<Rightarrow>
           (Return (diag_Errorf (''couldn't retrieve operationApplyTimes from ''
              @ Storage_Name storage @ '' controller'')), d, t3)
       | Inr operationApplyTimes \<Rightarrow>
      if \<not> checkOperationApplyTimes applyTime operationApplyTimes
      then (Return (diag_Errorf (''Storage controller '' @ storageID
              @ '' does not support settings_apply_time: '' @ applyTime)), d, t3)
      else
      (let t4 = t3 @ [Drives (Storage_ODataID storage)] in
      (case env_Drives service t3 storage of
         Inl err \<Rightarrow>
           (Return (diag_Errorf (''Error when getting the drives attached to controller - ''
              @ Error err)), d, t4)
       | Inr allStorageDrives \<Rightarrow>
      (case getDrives allStorageDrives driveNames of
         Inl err \<Rightarrow>
           (Return (diag_Errorf (''Error when getting the drives: '' @ Error err)), d, t4)
       | Inr drives \<Rightarrow>
      (case createVolume service t4 (Storage_ODataID storage) volumeType volumeName
              optimumIOSizeBytes capacityBytes readCachePolicy writeCachePolicy diskCachePolicy
              drives applyTime of
         (Inl err, t5) \<Rightarrow>
           (Return (diag_Errorf (''Error when creating the virtual disk on disk controller ''
              @ storageID @ '' - '' @ Error err)), d, t5)
       | (Inr jobID, t5) \<Rightarrow>
      (let (resetDiags, t6) =
         (if applyTime = OnResetApplyTime
          then (let resetType = Get_reset_type d; resetTimeout = Get_reset_timeout d
                in (env_PowerOperation service t5 resetType resetTimeout
                      (intervalSimpleUpdateJobCheckTime service),
                    t5 @ [PowerOperation resetType resetTimeout
                      (intervalSimpleUpdateJobCheckTime service)]))
          else ([], t5))
       in
      if HasError resetDiags
      then (Return (diag_Errorf ''there was an issue when restarting the server''), d, t6)
      else
      (let t7 = t6 @ [WaitForJobToFinish jobID intervalStorageVolumeJobCheckTime volumeJobTimeout] in
      (case env_WaitForJobToFinish service t6 jobID intervalStorageVolumeJobCheckTime
              volumeJobTimeout of
         Some err \<Rightarrow>
           (Return (diag_Errorf (''Error, job '' @ jobID @ '' wasn't able to complete: ''
              @ Error err)), d, t7)
       | None \<Rightarrow>
      (let t8 = t7 @ [Volumes (Storage_ODataID storage)] in
      (case env_Volumes service t7 storage of
         Inl err \<Rightarrow>
           (Return (diag_Errorf (''there was an issue when retrieving volumes - '' @ Error err)),
            d, t8)
       | Inr volumes \<Rightarrow>
      (case getVolumeID volumes volumeName of
         Inl err \<Rightarrow>
           (Return (diag_Errorf (''Error. The volume ID with volume name '' @ volumeName @ '' on ''
              @ storageID @ '' controller was not found'')), d, t8)
       | Inr volumeID \<Rightarrow>
      (case readRedfishStorageVolume service (d\<lparr>Id := volumeID\<rparr>) t8 of
         (diags, d', t9) \<Rightarrow> (Return diags, d', t9)))))))))))))))))))))"

text \<open>
  \<^verbatim>\<open>Lock\<close> is the first statement and \<^verbatim>\<open>defer Unlock\<close> the second; the key of
  the deferred call is evaluated at the \<^verbatim>\<open>defer\<close> statement, and the call runs when
  the function returns or panics.
\<close>

definition createRedfishStorageVolume ::
  "env \<Rightarrow> resource_data \<Rightarrow> event list \<Rightarrow> outcome \<times> resource_data \<times> event list" where
  "createRedfishStorageVolume service d t =
     (let t0 = t @ [Lock (getRedfishServerEndpoint d)];
          deferred = Unlock (getRedfishServerEndpoint d)
      in case createRedfishStorageVolume_body service d t0 of
           (result, d', t') \<Rightarrow> (result, d', t' @ [deferred]))"

definition updateRedfishStorageVolume_body ::
  "env \<Rightarrow> resource_data \<Rightarrow> event list \<Rightarrow> outcome \<times> resource_data \<times> event list" where
  "updateRedfishStorageVolume_body service d t =
     (let diags = [];
          storageID = Get_storage_controller_id d;
          volumeName = Get_volume_name d;
          driveNamesRaw = Get_drives d;
          readCachePolicy = Get_read_cache_policy d;
          writeCachePolicy = Get_write_cache_policy d;
          diskCachePolicy = Get_disk_cache_policy d;
          applyTime = Get_settings_apply_time d
      in
      if length driveNamesRaw = 0
      then (Return (diag_Errorf ''Error when getting the drives: drives cannot be empty''), d, t)
      else
      (case driveNames_of driveNamesRaw of
         None \<Rightarrow>
           (Return (diag_Errorf ''Error when getting the drives: drive name cannot be blank''), d, t)
       | Some driveNames \<Rightarrow>
      (let volumeJobTimeout = Get_volume_job_timeout d;
           t1 = t @ [Systems]
       in
      (case env_Systems service t of
         Inl err \<Rightarrow>
           (Return (diag_Errorf ''Error when retreiving the Systems from the Redfish API''), d, t1)
       | Inr [] \<Rightarrow> (Panic ''index out of range [0] with length 0'', d, t1)
       | Inr (systems0 # systems) \<Rightarrow>
      (let t2 = t1 @ [Storage (System_Name systems0)] in
      (case env_Storage service t1 systems0 of
         Inl err \<Rightarrow>
           (Return (diag_Errorf (''Error when retreiving the Storage from '' @ System_Name systems0
              @ '' from the Redfish API'')), d, t2)
       | Inr storageControllers \<Rightarrow>
      (case getStorageController storageControllers storageID of
         Inl err \<Rightarrow>
           (Return (diag_Errorf (''Error when getting the storage struct: '' @ Error err)), d, t2)
       | Inr storage \<Rightarrow>
      (let t3 = t2 @ [GetOperationApplyTimeValues (Storage_ODataID storage)] in
      (case env_GetOperationApplyTimeValues service t2 storage of
         Inl err \<Rightarrow>
           (Return (diag_Errorf (''couldn't retrieve operationApplyTimes from ''
              @ Storage_Name storage @ '' controller'')), d, t3)
       | Inr operationApplyTimes \<Rightarrow>
      if \<not> checkOperationApplyTimes applyTime operationApplyTimes
      then (Return (diag_Errorf (''Storage controller '' @ storageID
              @ '' does not support settings_apply_time: '' @ applyTime)), d, t3)
      else
      (case updateVolume service t3 (Id d) readCachePolicy writeCachePolicy volumeName
              diskCachePolicy applyTime of
         (Inl err, t5) \<Rightarrow>
           (Return (diag_Errorf (''Error when updating the virtual disk on disk controller ''
              @ storageID @ '' - '' @ Error err)), d, t5)
       | (Inr jobID, t5) \<Rightarrow>
      (let (resetDiags, t6) =
         (if applyTime = OnResetApplyTime
          then (let resetType = Get_reset_type d; resetTimeout = Get_reset_timeout d
                in (env_PowerOperation service t5 resetType resetTimeout
                      (intervalSimpleUpdateJobCheckTime service),
                    t5 @ [PowerOperation resetType resetTimeout
                      (intervalSimpleUpdateJobCheckTime service)]))
          else ([], t5))
       in
      if HasError resetDiags
      then (Return (diag_Errorf ''there was an issue when restarting the server''), d, t6)
      else
      (let t7 = t6 @ [WaitForJobToFinish jobID intervalStorageVolumeJobCheckTime volumeJobTimeout] in
      (case env_WaitForJobToFinish service t6 jobID intervalStorageVolumeJobCheckTime
              volumeJobTimeout of
         Some err \<Rightarrow>
           (Return (diag_Errorf (''Error, job '' @ jobID @ '' wasn't able to complete: ''
              @ Error err)), d, t7)
       | None \<Rightarrow> (Return diags, d, t7))))))))))))))"

definition updateRedfishStorageVolume ::
  "env \<Rightarrow> resource_data \<Rightarrow> event list \<Rightarrow> outcome \<times> resource_data \<times> event list" where
  "updateRedfishStorageVolume service d t =
     (let t0 = t @ [Lock (getRedfishServerEndpoint d)];
          deferred = Unlock (getRedfishServerEndpoint d)
      in case updateRedfishStorageVolume_body service d t0 of
           (result, d', t') \<Rightarrow> (result, d', t' @ [deferred]))"

definition deleteRedfishStorageVolume_body ::
  "env \<Rightarrow> resource_data \<Rightarrow> event list \<Rightarrow> outcome \<times> resource_data \<times> event list" where
  "deleteRedfishStorageVolume_body service d t =
     (let diags = [];
          applyTime = Get_settings_apply_time d;
          volumeJobTimeout = Get_volume_job_timeout d
      in
      (case deleteVolume service t (Id d) of
         (Inl err, t5) \<Rightarrow>
           (Return (diag_Errorf (''Error. There was an error when deleting volume '' @ Id d
              @ '' - '' @ Error err)), d, t5)
       | (Inr jobID, t5) \<Rightarrow>
      (let (resetDiags, t6) =
         (if applyTime = OnResetApplyTime
          then (let resetType = Get_reset_type d; resetTimeout = Get_reset_timeout d
                in (env_PowerOperation service t5 resetType resetTimeout
                      (intervalSimpleUpdateJobCheckTime service),
                    t5 @ [PowerOperation resetType resetTimeout
                      (intervalSimpleUpdateJobCheckTime service)]))
          else ([], t5))
       in
      if HasError resetDiags
      then (Return (diag_Errorf ''there was an issue when restarting the server''), d, t6)
      else
      (let t7 = t6 @ [WaitForJobToFinish jobID intervalStorageVolumeJobCheckTime volumeJobTimeout] in
      (case env_WaitForJobToFinish service t6 jobID intervalStorageVolumeJobCheckTime
              volumeJobTimeout of
         Some err \<Rightarrow>
           (Return (diag_Errorf (''Error, timeout reached when waiting for job '' @ jobID
              @ '' to finish. '' @ Error err)), d, t7)
       | None \<Rightarrow> (Return diags, d, t7))))))"

definition deleteRedfishStorageVolume ::
  "env \<Rightarrow> resource_data \<Rightarrow> event list \<Rightarrow> outcome \<times> resource_data \<times> event list" where
  "deleteRedfishStorageVolume service d t =
     (let t0 = t @ [Lock (getRedfishServerEndpoint d)];
          deferred = Unlock (getRedfishServerEndpoint d)
      in case deleteRedfishStorageVolume_body service d t0 of
           (result, d', t') \<Rightarrow> (result, d', t' @ [deferred]))"

subsection \<open>Kinds of events\<close>

fun isSubmission :: "event \<Rightarrow> bool" where
  "isSubmission (Post url body) = True"
| "isSubmission (Patch url body) = True"
| "isSubmission (Delete url) = True"
| "isSubmission e = False"

fun isMutex :: "event \<Rightarrow> bool" where
  "isMutex (Lock key) = True"
| "isMutex (Unlock key) = True"
| "isMutex e = False"

fun isPowerOperation :: "event \<Rightarrow> bool" where
  "isPowerOperation (PowerOperation resetType resetTimeout interval) = True"
| "isPowerOperation e = False"

fun isWaitForJobToFinish :: "event \<Rightarrow> bool" where
  "isWaitForJobToFinish (WaitForJobToFinish jobID interval timeout) = True"
| "isWaitForJobToFinish e = False"

text \<open>The calls that find the storage controller and ask for its apply times.\<close>

fun isCapabilityLookup :: "event \<Rightarrow> bool" where
  "isCapabilityLookup Systems = True"
| "isCapabilityLookup (Storage name) = True"
| "isCapabilityLookup (GetOperationApplyTimeValues controller) = True"
| "isCapabilityLookup e = False"

text \<open>
  The reset events of a run that got past the submission: one
  \<^verbatim>\<open>PowerOperation\<close> call under \<^verbatim>\<open>OnReset\<close>, none otherwise.
\<close>

definition reset_events :: "env \<Rightarrow> resource_data \<Rightarrow> event list" where
  "reset_events service d =
     (if Get_settings_apply_time d = OnResetApplyTime
      then [PowerOperation (Get_reset_type d) (Get_reset_timeout d)
              (intervalSimpleUpdateJobCheckTime service)]
      else [])"

text \<open>
  The job handle that an answer to a submission carries, in the words of the specification:
  status 202 Accepted with a non-empty \<^verbatim>\<open>Location\<close> header.
\<close>

fun jobHandle :: "go_error + http_response \<Rightarrow> string option" where
  "jobHandle (Inl err) = None"
| "jobHandle (Inr res) =
     (if StatusCode res = 202 \<and> Header_Get (Header res) ''Location'' \<noteq> []
      then Some (Header_Get (Header res) ''Location'') else None)"

fun answer :: "env \<Rightarrow> event list \<Rightarrow> event \<Rightarrow> string option" where
  "answer service pre (Post url body) = jobHandle (env_Post service pre url body)"
| "answer service pre (Patch url body) = jobHandle (env_Patch service pre url body)"
| "answer service pre (Delete url) = jobHandle (env_Delete service pre url)"
| "answer service pre e = None"

text \<open>
  \<open>accepted service pre es\<close>: among the events \<open>es\<close>, made after the events
  \<open>pre\<close>, there is a submission that the controller answered with a job handle.
\<close>

fun accepted :: "env \<Rightarrow> event list \<Rightarrow> event list \<Rightarrow> bool" where
  "accepted service pre [] = False"
| "accepted service pre (e # es) =
     (answer service pre e \<noteq> None \<or> accepted service (pre @ [e]) es)"

text \<open>
  \<open>resetFailed service pre es\<close>: among the events \<open>es\<close> there is a
  \<^verbatim>\<open>PowerOperation\<close> call that came back with an error diagnostic.
\<close>

fun powerFailed :: "env \<Rightarrow> event list \<Rightarrow> event \<Rightarrow> bool" where
  "powerFailed service pre (PowerOperation resetType resetTimeout interval) =
     HasError (env_PowerOperation service pre resetType resetTimeout interval)"
| "powerFailed service pre e = False"

fun resetFailed :: "env \<Rightarrow> event list \<Rightarrow> event list \<Rightarrow> bool" where
  "resetFailed service pre [] = False"
| "resetFailed service pre (e # es) =
     (powerFailed service pre e \<or> resetFailed service (pre @ [e]) es)"

subsection \<open>The job poller\<close>

text \<open>Modelled from the spec: \<^verbatim>\<open>common.WaitForJobToFinish\<close> is called by this file
  and lives in another package, so its loop follows section 4.5 of the specification. The
  poller starts in \<open>Running\<close>; it sleeps a fixed interval between polls
  (sleep-then-poll), moves to \<open>TimedOut\<close> when the time elapsed since the start
  exceeds the job timeout, and otherwise polls the job once: a job that reports success
  gives \<open>Completed\<close>, one that reports failure gives \<open>Failed\<close> with its message,
  and a job still running leaves the poller in \<open>Running\<close> for the next round.
  Time is the poller's own clock in seconds, advanced by the sleeps; \<open>job\<close> gives the
  state that a poll at that time reads. The result carries the clock at the end. The
  loop need not end when the interval is 0, so it is a partial function.
\<close>

datatype job_state = JobRunning | JobCompleted | JobFailed string

datatype poller_state = Running | Completed | Failed string | TimedOut

partial_function (option) WaitForJobToFinish_poll ::
  "(nat \<Rightarrow> job_state) \<Rightarrow> nat \<Rightarrow> nat \<Rightarrow> nat \<Rightarrow> (poller_state \<times> nat) option" where
  "WaitForJobToFinish_poll job pollInterval jobTimeout elapsed =
     (if jobTimeout < elapsed + pollInterval then Some (TimedOut, elapsed + pollInterval)
      else case job (elapsed + pollInterval) of
             JobCompleted \<Rightarrow> Some (Completed, elapsed + pollInterval)
           | JobFailed message \<Rightarrow> Some (Failed message, elapsed + pollInterval)
           | JobRunning \<Rightarrow>
               WaitForJobToFinish_poll job pollInterval jobTimeout (elapsed + pollInterval))"

subsection \<open>Example values\<close>

definition disk0 :: drive where
  "disk0 = \<lparr>Drive_Name = ''Disk.Bay.0'', Drive_ODataID = ''/redfish/v1/Drives/0''\<rparr>"

definition disk1 :: drive where
  "disk1 = \<lparr>Drive_Name = ''Disk.Bay.1'', Drive_ODataID = ''/redfish/v1/Drives/1''\<rparr>"

definition vdisk_a :: volume where
  "vdisk_a = \<lparr>Volume_Name = ''vd0'', Volume_ODataID = ''/redfish/v1/Volumes/1''\<rparr>"

definition vdisk_b :: volume where
  "vdisk_b = \<lparr>Volume_Name = ''vd0'', Volume_ODataID = ''/redfish/v1/Volumes/2''\<rparr>"

definition system1 :: computer_system where
  "system1 = \<lparr>System_Name = ''System.Embedded.1''\<rparr>"

definition raid1 :: storage where
  "raid1 = \<lparr>Storage_ID = ''RAID.1'', Storage_Name = ''PERC'',
     Storage_ODataID = ''/Storage/RAID.1''\<rparr>"

definition accepted_response :: http_response where
  "accepted_response = \<lparr>StatusCode = 202, Header = [''Location'' \<mapsto> [''/Tasks/JID_1'']]\<rparr>"

definition no_location_response :: http_response where
  "no_location_response = \<lparr>StatusCode = 202, Header = Map.empty\<rparr>"

definition ok_response :: http_response where
  "ok_response = \<lparr>StatusCode = 200, Header = [''Location'' \<mapsto> [''/Tasks/JID_1'']]\<rparr>"

text \<open>A controller that accepts everything and supports both apply times.\<close>

definition example_service :: env where
  "example_service =
     \<lparr>env_Systems = (\<lambda>t. Inr [system1]),
      env_Storage = (\<lambda>t s. Inr [raid1]),
      env_GetOperationApplyTimeValues = (\<lambda>t s. Inr [''Immediate'', ''OnReset'']),
      env_Drives = (\<lambda>t s. Inr [disk0, disk1]),
      env_Volumes = (\<lambda>t s. Inr [vdisk_a]),
      env_GetVolume = (\<lambda>t uri. Inr vdisk_a),
      env_Post = (\<lambda>t url body. Inr accepted_response),
      env_Patch = (\<lambda>t url body. Inr accepted_response),
      env_Delete = (\<lambda>t url. Inr accepted_response),
      env_PowerOperation = (\<lambda>t resetType resetTimeout interval. []),
      env_WaitForJobToFinish = (\<lambda>t jobID interval timeout. None),
      intervalSimpleUpdateJobCheckTime = 10\<rparr>"

text \<open>The same controller, advertising \<^verbatim>\<open>Immediate\<close> only.\<close>

definition immediate_only_service :: env where
  "immediate_only_service =
     example_service\<lparr>env_GetOperationApplyTimeValues := (\<lambda>t s. Inr [''Immediate''])\<rparr>"

text \<open>The same controller when the DELETE request does not get through.\<close>

definition unreachable_service :: env where
  "unreachable_service =
     example_service\<lparr>env_Delete := (\<lambda>t url. Inl (PlainError ''connection refused''))\<rparr>"

text \<open>The same controller when the restart of the server fails.\<close>

definition reset_failing_service :: env where
  "reset_failing_service =
     example_service\<lparr>env_PowerOperation :=
       (\<lambda>t resetType resetTimeout interval. diag_Errorf ''timeout reached'')\<rparr>"

text \<open>The same controller answering a DELETE with 202 and no \<^verbatim>\<open>Location\<close>, or with 200.\<close>

definition no_location_service :: env where
  "no_location_service = example_service\<lparr>env_Delete := (\<lambda>t url. Inr no_location_response)\<rparr>"

definition ok_service :: env where
  "ok_service = example_service\<lparr>env_Delete := (\<lambda>t url. Inr ok_response)\<rparr>"

text \<open>Controllers on which the volume cannot be read.\<close>

definition gone_service :: env where
  "gone_service =
     example_service\<lparr>env_GetVolume := (\<lambda>t uri. Inl (RedfishError 404 ''not found''))\<rparr>"

definition broken_service :: env where
  "broken_service =
     example_service\<lparr>env_GetVolume := (\<lambda>t uri. Inl (RedfishError 500 ''internal error''))\<rparr>"

definition offline_service :: env where
  "offline_service =
     example_service\<lparr>env_GetVolume := (\<lambda>t uri. Inl (PlainError ''no route to host''))\<rparr>"

definition example_d :: resource_data where
  "example_d =
     \<lparr>Id = ''/Volumes/1'',
      getRedfishServerEndpoint = ''https://bmc-1'',
      Get_storage_controller_id = ''RAID.1'',
      Get_volume_type = ''Mirrored'',
      Get_volume_name = ''vd0'',
      Get_optimum_io_size_bytes = 131072,
      Get_capacity_bytes = 1073323223,
      Get_drives = [Some ''Disk.Bay.0'', Some ''Disk.Bay.1''],
      Get_read_cache_policy = ''Off'',
      Get_write_cache_policy = ''UnprotectedWriteBack'',
      Get_disk_cache_policy = ''Enabled'',
      Get_settings_apply_time = ''OnReset'',
      Get_reset_type = ''ForceRestart'',
      Get_reset_timeout = 120,
      Get_volume_job_timeout = 1200\<rparr>"

text \<open>A job that is running until the given time and completed from then on.\<close>

fun job_after :: "nat \<Rightarrow> nat \<Rightarrow> job_state" where
  "job_after done_at now = (if now < done_at then JobRunning else JobCompleted)"

section \<open>Properties\<close>

subsection \<open>Entity resolution\<close>

text \<open>
  Two volumes of the requested name: \<^verbatim>\<open>getVolumeID\<close> does not fail, it returns
  the reference of the one that comes first in the collection.
\<close>

theorem getVolumeID_two_matches:
  "getVolumeID [vdisk_a, vdisk_b] ''vd0'' = Inr ''/redfish/v1/Volumes/1''"
  by (simp add: vdisk_a_def vdisk_b_def)

text \<open>
  C1 (amended): \<^verbatim>\<open>getVolumeID\<close> looks at the volumes of the requested name, in
  collection order. With none it fails; otherwise it returns the reference of the first
  of them, which is the only one when exactly one matches. There is no error for two or
  more matches.
\<close>

theorem getVolumeID_first_match:
  "getVolumeID volumes volumeName =
     (case filter (\<lambda>v. Volume_Name v = volumeName) volumes of
        [] \<Rightarrow> Inl (PlainError ''couldn't find a volume with the provided name'')
      | v # others \<Rightarrow> Inr (Volume_ODataID v))"
  by (induction volumes) simp_all

subsection \<open>Drive selection\<close>

lemma getDrives_names_eq:
  "getDrives_names v names acc = acc @ [v. w \<leftarrow> names, Drive_Name v = w]"
  by (induction names arbitrary: acc) simp_all

lemma getDrives_loop_eq:
  "getDrives_loop drives names acc =
     acc @ [v. v \<leftarrow> drives, w \<leftarrow> names, Drive_Name v = w]"
  by (induction drives arbitrary: acc) (simp_all add: getDrives_names_eq)

lemma getDrives_pairs:
  "getDrives drives driveNames =
     (let r = [v. v \<leftarrow> drives, w \<leftarrow> driveNames, Drive_Name v = w] in
      if length driveNames \<noteq> length r
      then Inl (PlainError ''any of the drives you inserted doesn't exist'')
      else Inr r)"
  by (simp add: getDrives_def getDrives_loop_eq)

lemma matches_distinct_names:
  "distinct names \<Longrightarrow>
   [v. w \<leftarrow> names, Drive_Name v = w] = (if Drive_Name v \<in> set names then [v] else [])"
  by (induction names) auto

lemma pairs_distinct_names:
  "distinct names \<Longrightarrow>
   [v. v \<leftarrow> drives, w \<leftarrow> names, Drive_Name v = w] =
     filter (\<lambda>v. Drive_Name v \<in> set names) drives"
  by (induction drives) (simp_all add: matches_distinct_names)

lemma length_filter_distinct:
  assumes "distinct (map Drive_Name drives)"
  shows "length (filter (\<lambda>v. Drive_Name v \<in> N) drives) = card (Drive_Name ` set drives \<inter> N)"
proof -
  have "length (filter (\<lambda>v. Drive_Name v \<in> N) drives)
      = length (filter (\<lambda>n. n \<in> N) (map Drive_Name drives))"
    by (simp add: filter_map comp_def)
  also have "\<dots> = card (set (filter (\<lambda>n. n \<in> N) (map Drive_Name drives)))"
  proof -
    have "distinct (filter (\<lambda>n. n \<in> N) (map Drive_Name drives))"
      using assms by (rule distinct_filter)
    then show ?thesis by (rule distinct_card [symmetric])
  qed
  also have "set (filter (\<lambda>n. n \<in> N) (map Drive_Name drives)) = Drive_Name ` set drives \<inter> N"
    by auto
  finally show ?thesis .
qed

lemma card_inter_eq:
  assumes "finite N"
  shows "card (A \<inter> N) = card N \<longleftrightarrow> N \<subseteq> A"
proof
  assume "card (A \<inter> N) = card N"
  with assms have "A \<inter> N = N" by (intro card_subset_eq) auto
  then show "N \<subseteq> A" by auto
next
  assume "N \<subseteq> A"
  then have "A \<inter> N = N" by auto
  then show "card (A \<inter> N) = card N" by simp
qed

text \<open>
  C10: \<^verbatim>\<open>getDrives\<close> collects the drive of every (drive, requested name) pair
  with equal names, drives in collection order, and fails exactly when the number of
  pairs is not the number of requested names. When neither the drives' names nor the
  requested names repeat, it succeeds if and only if every requested name is the name of
  a drive, and then returns exactly the drives that were asked for.
\<close>

theorem getDrives_spec:
  "getDrives drives driveNames =
     (let r = [v. v \<leftarrow> drives, w \<leftarrow> driveNames, Drive_Name v = w] in
      if length r \<noteq> length driveNames
      then Inl (PlainError ''any of the drives you inserted doesn't exist'')
      else Inr r)
   \<and> (distinct (map Drive_Name drives) \<and> distinct driveNames \<longrightarrow>
        ((\<exists>r. getDrives drives driveNames = Inr r) \<longleftrightarrow>
           set driveNames \<subseteq> Drive_Name ` set drives)
      \<and> (\<forall>r. getDrives drives driveNames = Inr r \<longrightarrow>
             r = filter (\<lambda>v. Drive_Name v \<in> set driveNames) drives))"
proof (intro conjI impI)
  show "getDrives drives driveNames =
     (let r = [v. v \<leftarrow> drives, w \<leftarrow> driveNames, Drive_Name v = w] in
      if length r \<noteq> length driveNames
      then Inl (PlainError ''any of the drives you inserted doesn't exist'')
      else Inr r)"
    by (simp add: getDrives_pairs Let_def)
next
  assume d: "distinct (map Drive_Name drives) \<and> distinct driveNames"
  let ?f = "filter (\<lambda>v. Drive_Name v \<in> set driveNames) drives"
  have g: "getDrives drives driveNames =
      (if length driveNames \<noteq> length ?f
       then Inl (PlainError ''any of the drives you inserted doesn't exist'') else Inr ?f)"
    using d by (simp add: getDrives_pairs pairs_distinct_names Let_def)
  have len: "length ?f = card (Drive_Name ` set drives \<inter> set driveNames)"
    using d by (simp add: length_filter_distinct)
  have "length driveNames = card (set driveNames)"
    using d by (simp add: distinct_card)
  with len have "length driveNames = length ?f \<longleftrightarrow> set driveNames \<subseteq> Drive_Name ` set drives"
    using card_inter_eq [of "set driveNames" "Drive_Name ` set drives"] by auto
  with g show "(\<exists>r. getDrives drives driveNames = Inr r) \<longleftrightarrow>
      set driveNames \<subseteq> Drive_Name ` set drives"
    by auto
  from g show "\<forall>r. getDrives drives driveNames = Inr r \<longrightarrow> r = ?f"
    by (auto split: if_splits)
qed

theorem getDrives_spec_witness:
  "distinct (map Drive_Name [disk0, disk1]) \<and> distinct [''Disk.Bay.1'']
   \<and> set [''Disk.Bay.1''] \<subseteq> Drive_Name ` set [disk0, disk1]
   \<and> getDrives [disk0, disk1] [''Disk.Bay.1''] = Inr [disk1]"
  using getDrives_spec [of "[disk0, disk1]" "[''Disk.Bay.1'']"]
  by (simp add: disk0_def disk1_def)

subsection \<open>Submission\<close>

text \<open>What each submitter returns and records, as one case distinction on the answer.\<close>

lemma createVolume_result:
  "createVolume service t storageLink volumeType volumeName optimumIOSizeBytes capacityBytes
     readCachePolicy writeCachePolicy diskCachePolicy drives applyTime =
   ((case env_Post service t (storageLink @ ''/Volumes'')
            (createVolume_newVolume volumeType volumeName optimumIOSizeBytes capacityBytes
               readCachePolicy writeCachePolicy diskCachePolicy drives applyTime) of
       Inl err \<Rightarrow> Inl err
     | Inr res \<Rightarrow>
         if StatusCode res = 202 \<and> Header_Get (Header res) ''Location'' \<noteq> []
         then Inr (Header_Get (Header res) ''Location'')
         else if StatusCode res = 202
           then Inl (PlainError ''there was some error when retreiving the jobID'')
           else Inl (PlainError ''the query was unsucessfull'')),
    t @ [Post (storageLink @ ''/Volumes'')
            (createVolume_newVolume volumeType volumeName optimumIOSizeBytes capacityBytes
               readCachePolicy writeCachePolicy diskCachePolicy drives applyTime)])"
  by (simp add: createVolume_def Let_def StatusAccepted_def split: sum.splits)

lemma updateVolume_result:
  "updateVolume service t storageLink readCachePolicy writeCachePolicy volumeName
     diskCachePolicy applyTime =
   ((case env_Patch service t (storageLink @ ''/Settings'')
            (updateVolume_payload readCachePolicy writeCachePolicy volumeName
               diskCachePolicy applyTime) of
       Inl err \<Rightarrow> Inl err
     | Inr res \<Rightarrow>
         if StatusCode res = 202 \<and> Header_Get (Header res) ''Location'' \<noteq> []
         then Inr (Header_Get (Header res) ''Location'')
         else if StatusCode res = 202
           then Inl (PlainError ''there was some error when retreiving the jobID'')
           else Inl (PlainError ''the query was unsucessfull'')),
    t @ [Patch (storageLink @ ''/Settings'')
            (updateVolume_payload readCachePolicy writeCachePolicy volumeName
               diskCachePolicy applyTime)])"
  by (simp add: updateVolume_def Let_def StatusAccepted_def split: sum.splits)

lemma deleteVolume_result:
  "deleteVolume service t volumeURI =
   ((case env_Delete service t volumeURI of
       Inl err \<Rightarrow> Inl (PlainError (''error while deleting the volume '' @ volumeURI))
     | Inr res \<Rightarrow>
         if StatusCode res = 202 \<and> Header_Get (Header res) ''Location'' \<noteq> []
         then Inr (Header_Get (Header res) ''Location'')
         else if StatusCode res = 202
           then Inl (PlainError ''there was some error when retreiving the jobID'')
           else Inl (PlainError
             ''the operation was not successful. Return code was different from 202 ACCEPTED'')),
    t @ [Delete volumeURI])"
  by (simp add: deleteVolume_def Let_def StatusAccepted_def split: sum.splits)

lemma createVolume_trace:
  "snd (createVolume service t storageLink volumeType volumeName optimumIOSizeBytes capacityBytes
     readCachePolicy writeCachePolicy diskCachePolicy drives applyTime) =
   t @ [Post (storageLink @ ''/Volumes'')
          (createVolume_newVolume volumeType volumeName optimumIOSizeBytes capacityBytes
             readCachePolicy writeCachePolicy diskCachePolicy drives applyTime)]"
  by (simp add: createVolume_result)

lemma updateVolume_trace:
  "snd (updateVolume service t storageLink readCachePolicy writeCachePolicy volumeName
     diskCachePolicy applyTime) =
   t @ [Patch (storageLink @ ''/Settings'')
          (updateVolume_payload readCachePolicy writeCachePolicy volumeName
             diskCachePolicy applyTime)]"
  by (simp add: updateVolume_result)

lemma deleteVolume_trace:
  "snd (deleteVolume service t volumeURI) = t @ [Delete volumeURI]"
  by (simp add: deleteVolume_result)

lemmas submit_traces = createVolume_trace updateVolume_trace deleteVolume_trace

lemma jobHandle_createVolume:
  "jobHandle (env_Post service t (storageLink @ ''/Volumes'')
      (createVolume_newVolume volumeType volumeName optimumIOSizeBytes capacityBytes
         readCachePolicy writeCachePolicy diskCachePolicy drives applyTime)) =
   (case fst (createVolume service t storageLink volumeType volumeName optimumIOSizeBytes
        capacityBytes readCachePolicy writeCachePolicy diskCachePolicy drives applyTime) of
      Inl err \<Rightarrow> None | Inr jobID \<Rightarrow> Some jobID)"
  by (simp add: createVolume_result split: sum.splits)

lemma jobHandle_updateVolume:
  "jobHandle (env_Patch service t (storageLink @ ''/Settings'')
      (updateVolume_payload readCachePolicy writeCachePolicy volumeName diskCachePolicy applyTime)) =
   (case fst (updateVolume service t storageLink readCachePolicy writeCachePolicy volumeName
        diskCachePolicy applyTime) of
      Inl err \<Rightarrow> None | Inr jobID \<Rightarrow> Some jobID)"
  by (simp add: updateVolume_result split: sum.splits)

lemma jobHandle_deleteVolume:
  "jobHandle (env_Delete service t volumeURI) =
   (case fst (deleteVolume service t volumeURI) of Inl err \<Rightarrow> None | Inr jobID \<Rightarrow> Some jobID)"
  by (simp add: deleteVolume_result split: sum.splits)

lemmas examples = disk0_def disk1_def vdisk_a_def system1_def raid1_def accepted_response_def
  no_location_response_def ok_response_def example_service_def immediate_only_service_def
  unreachable_service_def reset_failing_service_def no_location_service_def ok_service_def
  gone_service_def broken_service_def offline_service_def example_d_def

text \<open>
  C3: each of \<^verbatim>\<open>createVolume\<close>, \<^verbatim>\<open>updateVolume\<close> and \<^verbatim>\<open>deleteVolume\<close>
  returns a job handle if and only if the request was answered with status 202 and a
  non-empty \<^verbatim>\<open>Location\<close> header, and the handle is then the value of that header.
  An answer with any other status, or with status 202 and an empty \<^verbatim>\<open>Location\<close>,
  gives an error and no handle.
\<close>

theorem submission_job_handle:
  "(fst (createVolume service t storageLink volumeType volumeName optimumIOSizeBytes capacityBytes
          readCachePolicy writeCachePolicy diskCachePolicy drives applyTime) = Inr jobID
    \<longleftrightarrow> (\<exists>res. env_Post service t (storageLink @ ''/Volumes'')
            (createVolume_newVolume volumeType volumeName optimumIOSizeBytes capacityBytes
               readCachePolicy writeCachePolicy diskCachePolicy drives applyTime) = Inr res
          \<and> StatusCode res = 202 \<and> Header_Get (Header res) ''Location'' \<noteq> ''''
          \<and> jobID = Header_Get (Header res) ''Location''))
   \<and> (fst (updateVolume service t storageLink readCachePolicy writeCachePolicy volumeName
          diskCachePolicy applyTime) = Inr jobID
    \<longleftrightarrow> (\<exists>res. env_Patch service t (storageLink @ ''/Settings'')
            (updateVolume_payload readCachePolicy writeCachePolicy volumeName
               diskCachePolicy applyTime) = Inr res
          \<and> StatusCode res = 202 \<and> Header_Get (Header res) ''Location'' \<noteq> ''''
          \<and> jobID = Header_Get (Header res) ''Location''))
   \<and> (fst (deleteVolume service t volumeURI) = Inr jobID
    \<longleftrightarrow> (\<exists>res. env_Delete service t volumeURI = Inr res
          \<and> StatusCode res = 202 \<and> Header_Get (Header res) ''Location'' \<noteq> ''''
          \<and> jobID = Header_Get (Header res) ''Location''))
   \<and> (\<forall>res. (env_Post service t (storageLink @ ''/Volumes'')
            (createVolume_newVolume volumeType volumeName optimumIOSizeBytes capacityBytes
               readCachePolicy writeCachePolicy diskCachePolicy drives applyTime) = Inr res
          \<and> (StatusCode res \<noteq> 202 \<or> Header_Get (Header res) ''Location'' = '''')
        \<longrightarrow> (\<exists>err. fst (createVolume service t storageLink volumeType volumeName
              optimumIOSizeBytes capacityBytes readCachePolicy writeCachePolicy diskCachePolicy
              drives applyTime) = Inl err))
       \<and> (env_Patch service t (storageLink @ ''/Settings'')
            (updateVolume_payload readCachePolicy writeCachePolicy volumeName
               diskCachePolicy applyTime) = Inr res
          \<and> (StatusCode res \<noteq> 202 \<or> Header_Get (Header res) ''Location'' = '''')
        \<longrightarrow> (\<exists>err. fst (updateVolume service t storageLink readCachePolicy writeCachePolicy
              volumeName diskCachePolicy applyTime) = Inl err))
       \<and> (env_Delete service t volumeURI = Inr res
          \<and> (StatusCode res \<noteq> 202 \<or> Header_Get (Header res) ''Location'' = '''')
        \<longrightarrow> (\<exists>err. fst (deleteVolume service t volumeURI) = Inl err)))"
  unfolding createVolume_result updateVolume_result deleteVolume_result fst_conv
  by (auto split: sum.splits)

theorem submission_job_handle_witness:
  "env_Delete example_service [] ''/Volumes/1'' = Inr accepted_response
   \<and> StatusCode accepted_response = 202
   \<and> Header_Get (Header accepted_response) ''Location'' = ''/Tasks/JID_1''
   \<and> fst (deleteVolume example_service [] ''/Volumes/1'') = Inr ''/Tasks/JID_1''
   \<and> env_Delete no_location_service [] ''/Volumes/1'' = Inr no_location_response
   \<and> StatusCode no_location_response = 202
   \<and> Header_Get (Header no_location_response) ''Location'' = ''''
   \<and> fst (deleteVolume no_location_service [] ''/Volumes/1'') =
       Inl (PlainError ''there was some error when retreiving the jobID'')
   \<and> env_Delete ok_service [] ''/Volumes/1'' = Inr ok_response
   \<and> StatusCode ok_response = 200
   \<and> fst (deleteVolume ok_service [] ''/Volumes/1'') = Inl (PlainError
       ''the operation was not successful. Return code was different from 202 ACCEPTED'')"
  using submission_job_handle [where service = example_service and t = "[]"
      and volumeURI = "''/Volumes/1''" and jobID = "''/Tasks/JID_1''"]
    submission_job_handle [where service = no_location_service and t = "[]"
      and volumeURI = "''/Volumes/1''"]
    submission_job_handle [where service = ok_service and t = "[]"
      and volumeURI = "''/Volumes/1''"]
  by (simp add: examples deleteVolume_def Let_def Header_Get_def StatusAccepted_def)

subsection \<open>Reading\<close>

lemma HasError_Nil: "\<not> HasError []"
  by (simp add: HasError_def)

lemma HasError_Errorf: "HasError (diag_Errorf msg)"
  by (simp add: HasError_def diag_Errorf_def)

lemma readRedfishStorageVolume_trace:
  "snd (snd (readRedfishStorageVolume service d t)) = t @ [GetVolume (Id d)]"
  by (simp add: readRedfishStorageVolume_def Let_def split: sum.splits go_error.splits)

text \<open>
  C9: when \<^verbatim>\<open>GetVolume\<close> fails with an API error of status 404,
  \<^verbatim>\<open>readRedfishStorageVolume\<close> sets the identifier to the empty string and returns
  no diagnostics. With an API error of another status, or an error that is not an API
  error, it returns an error diagnostic and leaves the resource data as it was.
\<close>

theorem readRedfishStorageVolume_not_found:
  "(env_GetVolume service t (Id d) = Inl (RedfishError 404 msg) \<longrightarrow>
      readRedfishStorageVolume service d t = ([], d\<lparr>Id := ''''\<rparr>, t @ [GetVolume (Id d)]))
   \<and> (env_GetVolume service t (Id d) = Inl (RedfishError code msg) \<and> code \<noteq> 404 \<longrightarrow>
      HasError (fst (readRedfishStorageVolume service d t))
      \<and> snd (readRedfishStorageVolume service d t) = (d, t @ [GetVolume (Id d)]))
   \<and> (env_GetVolume service t (Id d) = Inl (PlainError msg) \<longrightarrow>
      HasError (fst (readRedfishStorageVolume service d t))
      \<and> snd (readRedfishStorageVolume service d t) = (d, t @ [GetVolume (Id d)]))"
  by (simp add: readRedfishStorageVolume_def Let_def StatusNotFound_def HasError_Errorf)

theorem readRedfishStorageVolume_not_found_witness:
  "env_GetVolume gone_service [] (Id example_d) = Inl (RedfishError 404 ''not found'')
   \<and> readRedfishStorageVolume gone_service example_d [] =
       ([], example_d\<lparr>Id := ''''\<rparr>, [GetVolume ''/Volumes/1''])
   \<and> env_GetVolume broken_service [] (Id example_d) = Inl (RedfishError 500 ''internal error'')
   \<and> HasError (fst (readRedfishStorageVolume broken_service example_d []))
   \<and> fst (readRedfishStorageVolume broken_service example_d []) =
       diag_Errorf ''Status code 500 - internal error''
   \<and> snd (readRedfishStorageVolume broken_service example_d []) =
       (example_d, [GetVolume ''/Volumes/1''])
   \<and> env_GetVolume offline_service [] (Id example_d) = Inl (PlainError ''no route to host'')
   \<and> HasError (fst (readRedfishStorageVolume offline_service example_d []))
   \<and> snd (readRedfishStorageVolume offline_service example_d []) =
       (example_d, [GetVolume ''/Volumes/1''])"
  using readRedfishStorageVolume_not_found [of gone_service "[]" example_d "''not found''"]
    readRedfishStorageVolume_not_found [of broken_service "[]" example_d "''internal error''" 500]
    readRedfishStorageVolume_not_found [of offline_service "[]" example_d "''no route to host''"]
  by (simp add: examples readRedfishStorageVolume_def Let_def StatusNotFound_def HasError_def
      diag_Errorf_def Sprint_d_def)

subsection \<open>The runs of a mutation\<close>

text \<open>
  Every run of a mutation body takes one of a few paths. For each path the rules below give
  the events the body adds to the history, with the answers that select the path.
\<close>

lemma deleteRedfishStorageVolume_body_cases:
  obtains
    (rejected) err where
      "fst (deleteVolume service t (Id d)) = Inl err"
      "snd (snd (deleteRedfishStorageVolume_body service d t)) = t @ [Delete (Id d)]"
  | (reset_failed) jobID where
      "fst (deleteVolume service t (Id d)) = Inr jobID"
      "Get_settings_apply_time d = OnResetApplyTime"
      "HasError (env_PowerOperation service (t @ [Delete (Id d)]) (Get_reset_type d)
         (Get_reset_timeout d) (intervalSimpleUpdateJobCheckTime service))"
      "fst (deleteRedfishStorageVolume_body service d t) =
         Return (diag_Errorf ''there was an issue when restarting the server'')"
      "snd (snd (deleteRedfishStorageVolume_body service d t)) =
         t @ Delete (Id d) # reset_events service d"
  | (polled) jobID where
      "fst (deleteVolume service t (Id d)) = Inr jobID"
      "Get_settings_apply_time d = OnResetApplyTime \<longrightarrow>
         \<not> HasError (env_PowerOperation service (t @ [Delete (Id d)]) (Get_reset_type d)
           (Get_reset_timeout d) (intervalSimpleUpdateJobCheckTime service))"
      "snd (snd (deleteRedfishStorageVolume_body service d t)) =
         t @ Delete (Id d) # reset_events service d
           @ [WaitForJobToFinish jobID intervalStorageVolumeJobCheckTime (Get_volume_job_timeout d)]"
proof (cases "fst (deleteVolume service t (Id d))")
  case (Inl err)
  then show thesis
    by (intro rejected [of err])
       (simp_all add: deleteRedfishStorageVolume_body_def deleteVolume_result split: sum.splits)
next
  case (Inr jobID)
  then have dv: "deleteVolume service t (Id d) = (Inr jobID, t @ [Delete (Id d)])"
    by (simp add: deleteVolume_result)
  show thesis
  proof (cases "Get_settings_apply_time d = OnResetApplyTime \<and>
      HasError (env_PowerOperation service (t @ [Delete (Id d)]) (Get_reset_type d)
        (Get_reset_timeout d) (intervalSimpleUpdateJobCheckTime service))")
    case True
    with Inr dv show thesis
      by (intro reset_failed [of jobID])
         (simp_all add: deleteRedfishStorageVolume_body_def reset_events_def Let_def)
  next
    case False
    with Inr dv show thesis
      by (intro polled [of jobID])
         (simp_all add: deleteRedfishStorageVolume_body_def reset_events_def Let_def
            HasError_Nil split: option.splits)
  qed
qed

lemma updateRedfishStorageVolume_body_cases:
  obtains
    (bad_config)
      "snd (snd (updateRedfishStorageVolume_body service d t)) = t"
  | (systems_failed)
      "snd (snd (updateRedfishStorageVolume_body service d t)) = t @ [Systems]"
  | (storage_failed) system :: computer_system where
      "snd (snd (updateRedfishStorageVolume_body service d t)) =
         t @ [Systems, Storage (System_Name system)]"
  | (capability_failed) system :: computer_system and storage where
      "\<forall>times. env_GetOperationApplyTimeValues service
           (t @ [Systems, Storage (System_Name system)]) storage = Inr times
         \<longrightarrow> \<not> checkOperationApplyTimes (Get_settings_apply_time d) times"
      "\<exists>diags. fst (updateRedfishStorageVolume_body service d t) = Return diags \<and> HasError diags"
      "snd (snd (updateRedfishStorageVolume_body service d t)) =
         t @ [Systems, Storage (System_Name system),
              GetOperationApplyTimeValues (Storage_ODataID storage)]"
  | (rejected) system :: computer_system and storage times tcap err where
      "tcap = t @ [Systems, Storage (System_Name system),
              GetOperationApplyTimeValues (Storage_ODataID storage)]"
      "env_GetOperationApplyTimeValues service
         (t @ [Systems, Storage (System_Name system)]) storage = Inr times"
      "checkOperationApplyTimes (Get_settings_apply_time d) times"
      "fst (updateVolume service tcap (Id d) (Get_read_cache_policy d) (Get_write_cache_policy d)
         (Get_volume_name d) (Get_disk_cache_policy d) (Get_settings_apply_time d)) = Inl err"
      "snd (snd (updateRedfishStorageVolume_body service d t)) =
         snd (updateVolume service tcap (Id d) (Get_read_cache_policy d) (Get_write_cache_policy d)
           (Get_volume_name d) (Get_disk_cache_policy d) (Get_settings_apply_time d))"
  | (reset_failed) system :: computer_system and storage times tcap jobID where
      "tcap = t @ [Systems, Storage (System_Name system),
              GetOperationApplyTimeValues (Storage_ODataID storage)]"
      "env_GetOperationApplyTimeValues service
         (t @ [Systems, Storage (System_Name system)]) storage = Inr times"
      "checkOperationApplyTimes (Get_settings_apply_time d) times"
      "fst (updateVolume service tcap (Id d) (Get_read_cache_policy d) (Get_write_cache_policy d)
         (Get_volume_name d) (Get_disk_cache_policy d) (Get_settings_apply_time d)) = Inr jobID"
      "Get_settings_apply_time d = OnResetApplyTime"
      "HasError (env_PowerOperation service
         (snd (updateVolume service tcap (Id d) (Get_read_cache_policy d) (Get_write_cache_policy d)
           (Get_volume_name d) (Get_disk_cache_policy d) (Get_settings_apply_time d)))
         (Get_reset_type d) (Get_reset_timeout d) (intervalSimpleUpdateJobCheckTime service))"
      "fst (updateRedfishStorageVolume_body service d t) =
         Return (diag_Errorf ''there was an issue when restarting the server'')"
      "snd (snd (updateRedfishStorageVolume_body service d t)) =
         snd (updateVolume service tcap (Id d) (Get_read_cache_policy d) (Get_write_cache_policy d)
           (Get_volume_name d) (Get_disk_cache_policy d) (Get_settings_apply_time d))
         @ reset_events service d"
  | (polled) system :: computer_system and storage times tcap jobID where
      "tcap = t @ [Systems, Storage (System_Name system),
              GetOperationApplyTimeValues (Storage_ODataID storage)]"
      "env_GetOperationApplyTimeValues service
         (t @ [Systems, Storage (System_Name system)]) storage = Inr times"
      "checkOperationApplyTimes (Get_settings_apply_time d) times"
      "fst (updateVolume service tcap (Id d) (Get_read_cache_policy d) (Get_write_cache_policy d)
         (Get_volume_name d) (Get_disk_cache_policy d) (Get_settings_apply_time d)) = Inr jobID"
      "Get_settings_apply_time d = OnResetApplyTime \<longrightarrow>
       \<not> HasError (env_PowerOperation service
         (snd (updateVolume service tcap (Id d) (Get_read_cache_policy d) (Get_write_cache_policy d)
           (Get_volume_name d) (Get_disk_cache_policy d) (Get_settings_apply_time d)))
         (Get_reset_type d) (Get_reset_timeout d) (intervalSimpleUpdateJobCheckTime service))"
      "snd (snd (updateRedfishStorageVolume_body service d t)) =
         snd (updateVolume service tcap (Id d) (Get_read_cache_policy d) (Get_write_cache_policy d)
           (Get_volume_name d) (Get_disk_cache_policy d) (Get_settings_apply_time d))
         @ reset_events service d
         @ [WaitForJobToFinish jobID intervalStorageVolumeJobCheckTime (Get_volume_job_timeout d)]"
proof -
  note body = updateRedfishStorageVolume_body_def Let_def
  show thesis
  proof (cases "Get_drives d = [] \<or> driveNames_of (Get_drives d) = None")
    case True
    then show thesis
      by (intro bad_config) (auto simp add: body)
  next
    case False
    then obtain driveNames where cfg:
      "Get_drives d \<noteq> []" "driveNames_of (Get_drives d) = Some driveNames"
      by auto
    show thesis
    proof (cases "env_Systems service t")
      case (Inl err)
      with cfg show thesis
        by (intro systems_failed) (simp add: body)
    next
      case (Inr systems)
      show thesis
      proof (cases systems)
        case Nil
        with cfg Inr show thesis
          by (intro systems_failed) (simp add: body)
      next
        case (Cons system rest)
        note systems = Inr [unfolded Cons]
        show thesis
        proof (cases "env_Storage service (t @ [Systems]) system")
          case (Inl err)
          with cfg systems show thesis
            by (intro storage_failed [where system=system]) (simp add: body)
        next
          case (Inr storageControllers)
          note sto = this
          show thesis
          proof (cases "getStorageController storageControllers (Get_storage_controller_id d)")
            case (Inl err)
            with cfg systems sto show thesis
              by (intro storage_failed [where system=system]) (simp add: body)
          next
            case (Inr storage)
            note ctl = this
            define tcap where "tcap = t @ [Systems, Storage (System_Name system),
              GetOperationApplyTimeValues (Storage_ODataID storage)]"
            show thesis
            proof (cases "env_GetOperationApplyTimeValues service
                (t @ [Systems, Storage (System_Name system)]) storage")
              case (Inl err)
              with cfg systems sto ctl show thesis
                by (intro capability_failed [where system=system and storage=storage])
                   (simp_all add: body HasError_Errorf)
            next
              case (Inr times)
              note cap = this
              show thesis
              proof (cases "checkOperationApplyTimes (Get_settings_apply_time d) times")
                case False
                with cfg systems sto ctl cap show thesis
                  by (intro capability_failed [where system=system and storage=storage])
                   (simp_all add: body HasError_Errorf)
              next
                case True
                note ok = this
                let ?u = "updateVolume service tcap (Id d) (Get_read_cache_policy d)
                  (Get_write_cache_policy d) (Get_volume_name d) (Get_disk_cache_policy d)
                  (Get_settings_apply_time d)"
                obtain res t5 where u: "?u = (res, t5)"
                  by (cases ?u) auto
                note pre = cfg systems sto ctl cap ok
                show thesis
                proof (cases res)
                  case (Inl err)
                  with pre u show thesis
                    by (intro rejected [where tcap=tcap and system=system and storage=storage and times=times and err=err])
                       (simp_all add: body tcap_def)
                next
                  case (Inr jobID)
                  note job = this
                  show thesis
                  proof (cases "Get_settings_apply_time d = OnResetApplyTime \<and>
                      HasError (env_PowerOperation service t5 (Get_reset_type d)
                        (Get_reset_timeout d) (intervalSimpleUpdateJobCheckTime service))")
                    case True
                    with pre u job show thesis
                      by (intro reset_failed [where tcap=tcap and system=system and storage=storage and times=times and jobID=jobID])
                         (simp_all add: body tcap_def reset_events_def)
                  next
                    case False
                    with pre u job show thesis
                      by (intro polled [where tcap=tcap and system=system and storage=storage and times=times and jobID=jobID])
                         (auto simp add: body tcap_def reset_events_def HasError_Nil
                            split: option.splits)
                  qed
                qed
              qed
            qed
          qed
        qed
      qed
    qed
  qed
qed

lemma createRedfishStorageVolume_body_cases:
  obtains
    (bad_config)
      "snd (snd (createRedfishStorageVolume_body service d t)) = t"
  | (systems_failed)
      "snd (snd (createRedfishStorageVolume_body service d t)) = t @ [Systems]"
  | (storage_failed) system :: computer_system where
      "snd (snd (createRedfishStorageVolume_body service d t)) =
         t @ [Systems, Storage (System_Name system)]"
  | (capability_failed) system :: computer_system and storage where
      "\<forall>times. env_GetOperationApplyTimeValues service
           (t @ [Systems, Storage (System_Name system)]) storage = Inr times
         \<longrightarrow> \<not> checkOperationApplyTimes (Get_settings_apply_time d) times"
      "\<exists>diags. fst (createRedfishStorageVolume_body service d t) = Return diags \<and> HasError diags"
      "snd (snd (createRedfishStorageVolume_body service d t)) =
         t @ [Systems, Storage (System_Name system),
              GetOperationApplyTimeValues (Storage_ODataID storage)]"
  | (drives_failed) system :: computer_system and storage times where
      "env_GetOperationApplyTimeValues service
         (t @ [Systems, Storage (System_Name system)]) storage = Inr times"
      "checkOperationApplyTimes (Get_settings_apply_time d) times"
      "snd (snd (createRedfishStorageVolume_body service d t)) =
         t @ [Systems, Storage (System_Name system),
              GetOperationApplyTimeValues (Storage_ODataID storage),
              Drives (Storage_ODataID storage)]"
  | (rejected) system :: computer_system and storage times drives sub err where
      "sub = createVolume service
         (t @ [Systems, Storage (System_Name system),
               GetOperationApplyTimeValues (Storage_ODataID storage),
               Drives (Storage_ODataID storage)])
         (Storage_ODataID storage) (Get_volume_type d) (Get_volume_name d)
         (Get_optimum_io_size_bytes d) (Get_capacity_bytes d) (Get_read_cache_policy d)
         (Get_write_cache_policy d) (Get_disk_cache_policy d) drives (Get_settings_apply_time d)"
      "env_GetOperationApplyTimeValues service
         (t @ [Systems, Storage (System_Name system)]) storage = Inr times"
      "checkOperationApplyTimes (Get_settings_apply_time d) times"
      "fst sub = Inl err"
      "snd (snd (createRedfishStorageVolume_body service d t)) = snd sub"
  | (reset_failed) system :: computer_system and storage times drives sub jobID where
      "sub = createVolume service
         (t @ [Systems, Storage (System_Name system),
               GetOperationApplyTimeValues (Storage_ODataID storage),
               Drives (Storage_ODataID storage)])
         (Storage_ODataID storage) (Get_volume_type d) (Get_volume_name d)
         (Get_optimum_io_size_bytes d) (Get_capacity_bytes d) (Get_read_cache_policy d)
         (Get_write_cache_policy d) (Get_disk_cache_policy d) drives (Get_settings_apply_time d)"
      "env_GetOperationApplyTimeValues service
         (t @ [Systems, Storage (System_Name system)]) storage = Inr times"
      "checkOperationApplyTimes (Get_settings_apply_time d) times"
      "fst sub = Inr jobID"
      "Get_settings_apply_time d = OnResetApplyTime"
      "HasError (env_PowerOperation service (snd sub) (Get_reset_type d) (Get_reset_timeout d)
         (intervalSimpleUpdateJobCheckTime service))"
      "fst (createRedfishStorageVolume_body service d t) =
         Return (diag_Errorf ''there was an issue when restarting the server'')"
      "snd (snd (createRedfishStorageVolume_body service d t)) = snd sub @ reset_events service d"
  | (polled) system :: computer_system and storage times drives sub jobID rest where
      "sub = createVolume service
         (t @ [Systems, Storage (System_Name system),
               GetOperationApplyTimeValues (Storage_ODataID storage),
               Drives (Storage_ODataID storage)])
         (Storage_ODataID storage) (Get_volume_type d) (Get_volume_name d)
         (Get_optimum_io_size_bytes d) (Get_capacity_bytes d) (Get_read_cache_policy d)
         (Get_write_cache_policy d) (Get_disk_cache_policy d) drives (Get_settings_apply_time d)"
      "env_GetOperationApplyTimeValues service
         (t @ [Systems, Storage (System_Name system)]) storage = Inr times"
      "checkOperationApplyTimes (Get_settings_apply_time d) times"
      "fst sub = Inr jobID"
      "Get_settings_apply_time d = OnResetApplyTime \<longrightarrow>
       \<not> HasError (env_PowerOperation service (snd sub) (Get_reset_type d) (Get_reset_timeout d)
         (intervalSimpleUpdateJobCheckTime service))"
      "rest = [] \<or> rest = [Volumes (Storage_ODataID storage)]
       \<or> (\<exists>volumeID. rest = [Volumes (Storage_ODataID storage), GetVolume volumeID])"
      "snd (snd (createRedfishStorageVolume_body service d t)) =
         snd sub @ reset_events service d
         @ WaitForJobToFinish jobID intervalStorageVolumeJobCheckTime (Get_volume_job_timeout d)
         # rest"
proof -
  note body = createRedfishStorageVolume_body_def Let_def
  show thesis
  proof (cases "Get_drives d = [] \<or> driveNames_of (Get_drives d) = None")
    case True
    then show thesis
      by (intro bad_config) (auto simp add: body)
  next
    case False
    then obtain driveNames where cfg:
      "Get_drives d \<noteq> []" "driveNames_of (Get_drives d) = Some driveNames"
      by auto
    show thesis
    proof (cases "env_Systems service t")
      case (Inl err)
      with cfg show thesis
        by (intro systems_failed) (simp add: body)
    next
      case (Inr systems)
      show thesis
      proof (cases systems)
        case Nil
        with cfg Inr show thesis
          by (intro systems_failed) (simp add: body)
      next
        case (Cons system others)
        note systems = Inr [unfolded Cons]
        show thesis
        proof (cases "env_Storage service (t @ [Systems]) system")
          case (Inl err)
          with cfg systems show thesis
            by (intro storage_failed [where system=system]) (simp add: body)
        next
          case (Inr storageControllers)
          note sto = this
          show thesis
          proof (cases "getStorageController storageControllers (Get_storage_controller_id d)")
            case (Inl err)
            with cfg systems sto show thesis
              by (intro storage_failed [where system=system]) (simp add: body)
          next
            case (Inr storage)
            note ctl = this
            show thesis
            proof (cases "env_GetOperationApplyTimeValues service
                (t @ [Systems, Storage (System_Name system)]) storage")
              case (Inl err)
              with cfg systems sto ctl show thesis
                by (intro capability_failed [where system=system and storage=storage])
                   (simp_all add: body HasError_Errorf)
            next
              case (Inr times)
              note cap = this
              show thesis
              proof (cases "checkOperationApplyTimes (Get_settings_apply_time d) times")
                case False
                with cfg systems sto ctl cap show thesis
                  by (intro capability_failed [where system=system and storage=storage])
                     (simp_all add: body HasError_Errorf)
              next
                case True
                note pre = cfg systems sto ctl cap True
                define tdrv where "tdrv = t @ [Systems, Storage (System_Name system),
                  GetOperationApplyTimeValues (Storage_ODataID storage),
                  Drives (Storage_ODataID storage)]"
                show thesis
                proof (cases "env_Drives service
                    (t @ [Systems, Storage (System_Name system),
                          GetOperationApplyTimeValues (Storage_ODataID storage)]) storage")
                  case (Inl err)
                  with pre show thesis
                    by (intro drives_failed [where system=system and storage=storage
                          and times=times]) (simp_all add: body)
                next
                  case (Inr allStorageDrives)
                  note alld = this
                  show thesis
                  proof (cases "getDrives allStorageDrives driveNames")
                    case (Inl err)
                    with pre alld show thesis
                      by (intro drives_failed [where system=system and storage=storage
                            and times=times]) (simp_all add: body)
                  next
                    case (Inr drives)
                    note drv = this
                    define sub where "sub = createVolume service tdrv
                      (Storage_ODataID storage) (Get_volume_type d) (Get_volume_name d)
                      (Get_optimum_io_size_bytes d) (Get_capacity_bytes d)
                      (Get_read_cache_policy d) (Get_write_cache_policy d)
                      (Get_disk_cache_policy d) drives (Get_settings_apply_time d)"
                    obtain res t5 where u: "sub = (res, t5)"
                      by (cases sub) auto
                    note pre2 = pre alld drv u [unfolded sub_def tdrv_def]
                    show thesis
                    proof (cases res)
                      case (Inl err)
                      with pre2 show thesis
                        by (intro rejected [where system=system and storage=storage
                              and times=times and drives=drives and sub=sub and err=err])
                           (simp_all add: body sub_def tdrv_def)
                    next
                      case (Inr jobID)
                      note job = this
                      show thesis
                      proof (cases "Get_settings_apply_time d = OnResetApplyTime \<and>
                          HasError (env_PowerOperation service t5 (Get_reset_type d)
                            (Get_reset_timeout d) (intervalSimpleUpdateJobCheckTime service))")
                        case True
                        with pre2 job show thesis
                          by (intro reset_failed [where system=system and storage=storage
                                and times=times and drives=drives and sub=sub and jobID=jobID])
                             (simp_all add: body sub_def tdrv_def reset_events_def)
                      next
                        case False
                        note noreset = this
                        let ?rest = "drop (length (t5 @ reset_events service d) + 1)
                          (snd (snd (createRedfishStorageVolume_body service d t)))"
                        from pre2 job noreset show thesis
                          by (intro polled [where system=system and storage=storage
                                and times=times and drives=drives and sub=sub and jobID=jobID
                                and rest="?rest"])
                             (auto simp add: body sub_def tdrv_def reset_events_def HasError_Nil
                                readRedfishStorageVolume_def
                                split: option.splits sum.splits go_error.splits)
                      qed
                    qed
                  qed
                qed
              qed
            qed
          qed
        qed
      qed
    qed
  qed
qed

text \<open>The two mutex lines around a body.\<close>

lemma createRedfishStorageVolume_unfold:
  "createRedfishStorageVolume service d t =
     (fst (createRedfishStorageVolume_body service d (t @ [Lock (getRedfishServerEndpoint d)])),
      fst (snd (createRedfishStorageVolume_body service d (t @ [Lock (getRedfishServerEndpoint d)]))),
      snd (snd (createRedfishStorageVolume_body service d (t @ [Lock (getRedfishServerEndpoint d)])))
        @ [Unlock (getRedfishServerEndpoint d)])"
  by (simp add: createRedfishStorageVolume_def Let_def split: prod.splits)

lemma updateRedfishStorageVolume_unfold:
  "updateRedfishStorageVolume service d t =
     (fst (updateRedfishStorageVolume_body service d (t @ [Lock (getRedfishServerEndpoint d)])),
      fst (snd (updateRedfishStorageVolume_body service d (t @ [Lock (getRedfishServerEndpoint d)]))),
      snd (snd (updateRedfishStorageVolume_body service d (t @ [Lock (getRedfishServerEndpoint d)])))
        @ [Unlock (getRedfishServerEndpoint d)])"
  by (simp add: updateRedfishStorageVolume_def Let_def split: prod.splits)

lemma deleteRedfishStorageVolume_unfold:
  "deleteRedfishStorageVolume service d t =
     (fst (deleteRedfishStorageVolume_body service d (t @ [Lock (getRedfishServerEndpoint d)])),
      fst (snd (deleteRedfishStorageVolume_body service d (t @ [Lock (getRedfishServerEndpoint d)]))),
      snd (snd (deleteRedfishStorageVolume_body service d (t @ [Lock (getRedfishServerEndpoint d)])))
        @ [Unlock (getRedfishServerEndpoint d)])"
  by (simp add: deleteRedfishStorageVolume_def Let_def split: prod.splits)

text \<open>A run on the example controller: a creation under \<^verbatim>\<open>OnReset\<close> that goes through.\<close>

lemmas run_create = createRedfishStorageVolume_def createRedfishStorageVolume_body_def
  createVolume_def getDrives_def readRedfishStorageVolume_def Let_def Header_Get_def
  StatusAccepted_def OnResetApplyTime_def intervalStorageVolumeJobCheckTime_def HasError_def
  diag_Errorf_def

lemma create_example_run:
  "createRedfishStorageVolume example_service example_d [] =
     (Return [], example_d\<lparr>Id := ''/redfish/v1/Volumes/1''\<rparr>,
      [Lock ''https://bmc-1'', Systems, Storage ''System.Embedded.1'',
       GetOperationApplyTimeValues ''/Storage/RAID.1'', Drives ''/Storage/RAID.1'',
       Post ''/Storage/RAID.1/Volumes''
         (createVolume_newVolume ''Mirrored'' ''vd0'' 131072 1073323223 ''Off''
            ''UnprotectedWriteBack'' ''Enabled'' [disk0, disk1] ''OnReset''),
       PowerOperation ''ForceRestart'' 120 10,
       WaitForJobToFinish ''/Tasks/JID_1'' 10 1200,
       Volumes ''/Storage/RAID.1'', GetVolume ''/redfish/v1/Volumes/1'',
       Unlock ''https://bmc-1''])"
  by (simp add: examples run_create)

subsection \<open>The endpoint mutex\<close>

lemma create_mutex:
  "\<exists>mid. snd (snd (createRedfishStorageVolume service d t)) =
      t @ [Lock (getRedfishServerEndpoint d)] @ mid @ [Unlock (getRedfishServerEndpoint d)]
    \<and> \<not> list_ex isMutex mid"
  by (rule createRedfishStorageVolume_body_cases
        [of service d "t @ [Lock (getRedfishServerEndpoint d)]"])
     (auto simp add: createRedfishStorageVolume_unfold reset_events_def submit_traces)

lemma update_mutex:
  "\<exists>mid. snd (snd (updateRedfishStorageVolume service d t)) =
      t @ [Lock (getRedfishServerEndpoint d)] @ mid @ [Unlock (getRedfishServerEndpoint d)]
    \<and> \<not> list_ex isMutex mid"
  by (rule updateRedfishStorageVolume_body_cases
        [of service d "t @ [Lock (getRedfishServerEndpoint d)]"])
     (auto simp add: updateRedfishStorageVolume_unfold reset_events_def submit_traces)

lemma delete_mutex:
  "\<exists>mid. snd (snd (deleteRedfishStorageVolume service d t)) =
      t @ [Lock (getRedfishServerEndpoint d)] @ mid @ [Unlock (getRedfishServerEndpoint d)]
    \<and> \<not> list_ex isMutex mid"
  by (rule deleteRedfishStorageVolume_body_cases
        [of service "t @ [Lock (getRedfishServerEndpoint d)]" d])
     (simp_all add: deleteRedfishStorageVolume_unfold reset_events_def)

text \<open>
  C4: in every run of \<^verbatim>\<open>createRedfishStorageVolume\<close>,
  \<^verbatim>\<open>updateRedfishStorageVolume\<close> and \<^verbatim>\<open>deleteRedfishStorageVolume\<close>,
  whatever the controller answers and whether the run ends in success, in an error or in
  a panic, the first event is \<^verbatim>\<open>Lock\<close> on the endpoint of the resource, the last
  event is \<^verbatim>\<open>Unlock\<close> on the same endpoint, and the mutex is not touched in
  between.
\<close>

theorem mutex_bracket:
  "(\<exists>mid. snd (snd (createRedfishStorageVolume service d t)) =
      t @ [Lock (getRedfishServerEndpoint d)] @ mid @ [Unlock (getRedfishServerEndpoint d)]
    \<and> \<not> list_ex isMutex mid)
   \<and> (\<exists>mid. snd (snd (updateRedfishStorageVolume service d t)) =
      t @ [Lock (getRedfishServerEndpoint d)] @ mid @ [Unlock (getRedfishServerEndpoint d)]
    \<and> \<not> list_ex isMutex mid)
   \<and> (\<exists>mid. snd (snd (deleteRedfishStorageVolume service d t)) =
      t @ [Lock (getRedfishServerEndpoint d)] @ mid @ [Unlock (getRedfishServerEndpoint d)]
    \<and> \<not> list_ex isMutex mid)"
  by (intro conjI create_mutex update_mutex delete_mutex)

subsection \<open>One submission\<close>

lemma create_once:
  "\<exists>mid. snd (snd (createRedfishStorageVolume service d t)) = t @ mid
    \<and> length (filter isSubmission mid) \<le> 1"
  by (rule createRedfishStorageVolume_body_cases
        [of service d "t @ [Lock (getRedfishServerEndpoint d)]"])
     (auto simp add: createRedfishStorageVolume_unfold reset_events_def submit_traces)

lemma update_once:
  "\<exists>mid. snd (snd (updateRedfishStorageVolume service d t)) = t @ mid
    \<and> length (filter isSubmission mid) \<le> 1"
  by (rule updateRedfishStorageVolume_body_cases
        [of service d "t @ [Lock (getRedfishServerEndpoint d)]"])
     (auto simp add: updateRedfishStorageVolume_unfold reset_events_def submit_traces)

lemma delete_once:
  "\<exists>mid. snd (snd (deleteRedfishStorageVolume service d t)) = t @ mid
    \<and> length (filter isSubmission mid) = 1"
  by (rule deleteRedfishStorageVolume_body_cases
        [of service "t @ [Lock (getRedfishServerEndpoint d)]" d])
     (simp_all add: deleteRedfishStorageVolume_unfold reset_events_def)

lemmas run_update = updateRedfishStorageVolume_def updateRedfishStorageVolume_body_def
  updateVolume_def Let_def Header_Get_def StatusAccepted_def OnResetApplyTime_def
  intervalStorageVolumeJobCheckTime_def HasError_def diag_Errorf_def

text \<open>
  An update that asks for \<^verbatim>\<open>OnReset\<close> on a controller that advertises
  \<^verbatim>\<open>Immediate\<close> only: the run stops at the capability check, and no submission
  request is sent at all.
\<close>

theorem update_without_submission:
  "updateRedfishStorageVolume immediate_only_service example_d [] =
     (Return (diag_Errorf
        ''Storage controller RAID.1 does not support settings_apply_time: OnReset''),
      example_d,
      [Lock ''https://bmc-1'', Systems, Storage ''System.Embedded.1'',
       GetOperationApplyTimeValues ''/Storage/RAID.1'', Unlock ''https://bmc-1''])"
  by (simp add: examples run_update)

text \<open>
  C8 (amended): a submitter sends its request exactly once, whatever the answer is (a
  transport error, any status, a missing \<^verbatim>\<open>Location\<close>): the history after
  \<^verbatim>\<open>createVolume\<close>, \<^verbatim>\<open>updateVolume\<close> or \<^verbatim>\<open>deleteVolume\<close> is the history
  before it plus the one request. A whole mutation never contains a second submission
  request: a creation or an update contains at most one (none when it stops before the
  submission), and a deletion exactly one.
\<close>

theorem submission_once:
  "snd (createVolume service t storageLink volumeType volumeName optimumIOSizeBytes capacityBytes
     readCachePolicy writeCachePolicy diskCachePolicy drives applyTime) =
     t @ [Post (storageLink @ ''/Volumes'')
            (createVolume_newVolume volumeType volumeName optimumIOSizeBytes capacityBytes
               readCachePolicy writeCachePolicy diskCachePolicy drives applyTime)]
   \<and> snd (updateVolume service t storageLink readCachePolicy writeCachePolicy volumeName
     diskCachePolicy applyTime) =
     t @ [Patch (storageLink @ ''/Settings'')
            (updateVolume_payload readCachePolicy writeCachePolicy volumeName
               diskCachePolicy applyTime)]
   \<and> snd (deleteVolume service t volumeURI) = t @ [Delete volumeURI]
   \<and> (\<exists>mid. snd (snd (createRedfishStorageVolume service d t)) = t @ mid
         \<and> length (filter isSubmission mid) \<le> 1)
   \<and> (\<exists>mid. snd (snd (updateRedfishStorageVolume service d t)) = t @ mid
         \<and> length (filter isSubmission mid) \<le> 1)
   \<and> (\<exists>mid. snd (snd (deleteRedfishStorageVolume service d t)) = t @ mid
         \<and> length (filter isSubmission mid) = 1)"
  by (intro conjI createVolume_trace updateVolume_trace deleteVolume_trace
      create_once update_once delete_once)

subsection \<open>The power operation\<close>

lemma create_power:
  "\<exists>mid. snd (snd (createRedfishStorageVolume service d t)) = t @ mid
    \<and> (list_ex isPowerOperation mid \<longleftrightarrow>
         Get_settings_apply_time d = ''OnReset'' \<and> accepted service t mid)
    \<and> length (filter isPowerOperation mid) \<le> 1"
  by (rule createRedfishStorageVolume_body_cases
        [of service d "t @ [Lock (getRedfishServerEndpoint d)]"])
     (auto simp add: createRedfishStorageVolume_unfold reset_events_def
        jobHandle_createVolume OnResetApplyTime_def createVolume_trace)

lemma update_power:
  "\<exists>mid. snd (snd (updateRedfishStorageVolume service d t)) = t @ mid
    \<and> (list_ex isPowerOperation mid \<longleftrightarrow>
         Get_settings_apply_time d = ''OnReset'' \<and> accepted service t mid)
    \<and> length (filter isPowerOperation mid) \<le> 1"
  by (rule updateRedfishStorageVolume_body_cases
        [of service d "t @ [Lock (getRedfishServerEndpoint d)]"])
     (auto simp add: updateRedfishStorageVolume_unfold reset_events_def
        jobHandle_updateVolume OnResetApplyTime_def updateVolume_trace)

lemma delete_power:
  "\<exists>mid. snd (snd (deleteRedfishStorageVolume service d t)) = t @ mid
    \<and> (list_ex isPowerOperation mid \<longleftrightarrow>
         Get_settings_apply_time d = ''OnReset'' \<and> accepted service t mid)
    \<and> length (filter isPowerOperation mid) \<le> 1"
  by (rule deleteRedfishStorageVolume_body_cases
        [of service "t @ [Lock (getRedfishServerEndpoint d)]" d])
     (simp_all add: deleteRedfishStorageVolume_unfold reset_events_def jobHandle_deleteVolume
        OnResetApplyTime_def)

lemmas run_delete = deleteRedfishStorageVolume_def deleteRedfishStorageVolume_body_def
  deleteVolume_def Let_def Header_Get_def StatusAccepted_def OnResetApplyTime_def
  intervalStorageVolumeJobCheckTime_def HasError_def diag_Errorf_def

text \<open>
  A deletion under \<^verbatim>\<open>OnReset\<close> whose DELETE request does not get through: the
  run ends after the request, and no power operation is requested.
\<close>

theorem delete_unreachable_no_reset:
  "Get_settings_apply_time example_d = ''OnReset''
   \<and> snd (snd (deleteRedfishStorageVolume unreachable_service example_d [])) =
       [Lock ''https://bmc-1'', Delete ''/Volumes/1'', Unlock ''https://bmc-1'']"
  by (simp add: examples run_delete)

text \<open>
  C5 (amended): in every mutation, \<^verbatim>\<open>PowerOperation\<close> is called if and only if the
  apply time is \<^verbatim>\<open>OnReset\<close> and the submission was answered with a job handle; it is
  called at most once. So a mutation whose apply time is \<^verbatim>\<open>Immediate\<close> never
  requests a power operation, and neither does one under \<^verbatim>\<open>OnReset\<close> that ends
  before or at the submission.
\<close>

theorem power_operation_iff:
  "(\<exists>mid. snd (snd (createRedfishStorageVolume service d t)) = t @ mid
      \<and> (list_ex isPowerOperation mid \<longleftrightarrow>
           Get_settings_apply_time d = ''OnReset'' \<and> accepted service t mid)
      \<and> length (filter isPowerOperation mid) \<le> 1)
   \<and> (\<exists>mid. snd (snd (updateRedfishStorageVolume service d t)) = t @ mid
      \<and> (list_ex isPowerOperation mid \<longleftrightarrow>
           Get_settings_apply_time d = ''OnReset'' \<and> accepted service t mid)
      \<and> length (filter isPowerOperation mid) \<le> 1)
   \<and> (\<exists>mid. snd (snd (deleteRedfishStorageVolume service d t)) = t @ mid
      \<and> (list_ex isPowerOperation mid \<longleftrightarrow>
           Get_settings_apply_time d = ''OnReset'' \<and> accepted service t mid)
      \<and> length (filter isPowerOperation mid) \<le> 1)"
  by (intro conjI create_power update_power delete_power)

theorem power_operation_iff_witness:
  "Get_settings_apply_time example_d = ''OnReset''
   \<and> snd (snd (deleteRedfishStorageVolume example_service example_d [])) =
       [Lock ''https://bmc-1'', Delete ''/Volumes/1'', PowerOperation ''ForceRestart'' 120 10,
        WaitForJobToFinish ''/Tasks/JID_1'' 10 1200, Unlock ''https://bmc-1'']
   \<and> accepted example_service []
       [Lock ''https://bmc-1'', Delete ''/Volumes/1'', PowerOperation ''ForceRestart'' 120 10,
        WaitForJobToFinish ''/Tasks/JID_1'' 10 1200, Unlock ''https://bmc-1'']
   \<and> list_ex isPowerOperation
       [Lock ''https://bmc-1'', Delete ''/Volumes/1'', PowerOperation ''ForceRestart'' 120 10,
        WaitForJobToFinish ''/Tasks/JID_1'' 10 1200, Unlock ''https://bmc-1'']
   \<and> \<not> accepted unreachable_service []
       [Lock ''https://bmc-1'', Delete ''/Volumes/1'', Unlock ''https://bmc-1'']"
  using power_operation_iff [of example_service example_d "[]"]
  by (simp add: examples run_delete)

subsection \<open>A failed reset\<close>

lemma create_reset_failed:
  "\<exists>mid. snd (snd (createRedfishStorageVolume service d t)) = t @ mid
    \<and> (resetFailed service t mid \<longrightarrow>
         fst (createRedfishStorageVolume service d t) =
           Return (diag_Errorf ''there was an issue when restarting the server'')
         \<and> Get_settings_apply_time d = ''OnReset''
         \<and> accepted service t mid
         \<and> \<not> list_ex isWaitForJobToFinish mid
         \<and> dropWhile (\<lambda>e. \<not> isPowerOperation e) mid =
             reset_events service d @ [Unlock (getRedfishServerEndpoint d)])"
  by (rule createRedfishStorageVolume_body_cases
        [of service d "t @ [Lock (getRedfishServerEndpoint d)]"])
     (auto simp add: createRedfishStorageVolume_unfold reset_events_def
        jobHandle_createVolume OnResetApplyTime_def createVolume_trace)

lemma update_reset_failed:
  "\<exists>mid. snd (snd (updateRedfishStorageVolume service d t)) = t @ mid
    \<and> (resetFailed service t mid \<longrightarrow>
         fst (updateRedfishStorageVolume service d t) =
           Return (diag_Errorf ''there was an issue when restarting the server'')
         \<and> Get_settings_apply_time d = ''OnReset''
         \<and> accepted service t mid
         \<and> \<not> list_ex isWaitForJobToFinish mid
         \<and> dropWhile (\<lambda>e. \<not> isPowerOperation e) mid =
             reset_events service d @ [Unlock (getRedfishServerEndpoint d)])"
  by (rule updateRedfishStorageVolume_body_cases
        [of service d "t @ [Lock (getRedfishServerEndpoint d)]"])
     (auto simp add: updateRedfishStorageVolume_unfold reset_events_def
        jobHandle_updateVolume OnResetApplyTime_def updateVolume_trace)

lemma delete_reset_failed:
  "\<exists>mid. snd (snd (deleteRedfishStorageVolume service d t)) = t @ mid
    \<and> (resetFailed service t mid \<longrightarrow>
         fst (deleteRedfishStorageVolume service d t) =
           Return (diag_Errorf ''there was an issue when restarting the server'')
         \<and> Get_settings_apply_time d = ''OnReset''
         \<and> accepted service t mid
         \<and> \<not> list_ex isWaitForJobToFinish mid
         \<and> dropWhile (\<lambda>e. \<not> isPowerOperation e) mid =
             reset_events service d @ [Unlock (getRedfishServerEndpoint d)])"
  by (rule deleteRedfishStorageVolume_body_cases
        [of service "t @ [Lock (getRedfishServerEndpoint d)]" d])
     (simp_all add: deleteRedfishStorageVolume_unfold reset_events_def jobHandle_deleteVolume
        OnResetApplyTime_def)

text \<open>
  C6: when the \<^verbatim>\<open>PowerOperation\<close> call of a mutation comes back with an error
  diagnostic (the restart failed or timed out), the mutation returns the error
  ``there was an issue when restarting the server''. The apply time was \<^verbatim>\<open>OnReset\<close>
  and the job had been submitted and accepted; \<^verbatim>\<open>WaitForJobToFinish\<close> is never
  called, and after the power operation the only event is the release of the mutex: no
  request is sent for the job that was started.
\<close>

theorem reset_failure_aborts:
  "(\<exists>mid. snd (snd (createRedfishStorageVolume service d t)) = t @ mid
    \<and> (resetFailed service t mid \<longrightarrow>
         fst (createRedfishStorageVolume service d t) =
           Return (diag_Errorf ''there was an issue when restarting the server'')
         \<and> Get_settings_apply_time d = ''OnReset''
         \<and> accepted service t mid
         \<and> \<not> list_ex isWaitForJobToFinish mid
         \<and> dropWhile (\<lambda>e. \<not> isPowerOperation e) mid =
             reset_events service d @ [Unlock (getRedfishServerEndpoint d)]))
   \<and> (\<exists>mid. snd (snd (updateRedfishStorageVolume service d t)) = t @ mid
    \<and> (resetFailed service t mid \<longrightarrow>
         fst (updateRedfishStorageVolume service d t) =
           Return (diag_Errorf ''there was an issue when restarting the server'')
         \<and> Get_settings_apply_time d = ''OnReset''
         \<and> accepted service t mid
         \<and> \<not> list_ex isWaitForJobToFinish mid
         \<and> dropWhile (\<lambda>e. \<not> isPowerOperation e) mid =
             reset_events service d @ [Unlock (getRedfishServerEndpoint d)]))
   \<and> (\<exists>mid. snd (snd (deleteRedfishStorageVolume service d t)) = t @ mid
    \<and> (resetFailed service t mid \<longrightarrow>
         fst (deleteRedfishStorageVolume service d t) =
           Return (diag_Errorf ''there was an issue when restarting the server'')
         \<and> Get_settings_apply_time d = ''OnReset''
         \<and> accepted service t mid
         \<and> \<not> list_ex isWaitForJobToFinish mid
         \<and> dropWhile (\<lambda>e. \<not> isPowerOperation e) mid =
             reset_events service d @ [Unlock (getRedfishServerEndpoint d)]))"
  by (intro conjI create_reset_failed update_reset_failed delete_reset_failed)

theorem reset_failure_aborts_witness:
  "snd (snd (deleteRedfishStorageVolume reset_failing_service example_d [])) =
       [Lock ''https://bmc-1'', Delete ''/Volumes/1'', PowerOperation ''ForceRestart'' 120 10,
        Unlock ''https://bmc-1'']
   \<and> resetFailed reset_failing_service []
       [Lock ''https://bmc-1'', Delete ''/Volumes/1'', PowerOperation ''ForceRestart'' 120 10,
        Unlock ''https://bmc-1'']
   \<and> fst (deleteRedfishStorageVolume reset_failing_service example_d []) =
       Return (diag_Errorf ''there was an issue when restarting the server'')
   \<and> reset_events reset_failing_service example_d = [PowerOperation ''ForceRestart'' 120 10]"
  using reset_failure_aborts [of reset_failing_service example_d "[]"]
  by (simp add: examples run_delete reset_events_def)

subsection \<open>The capability check\<close>

text \<open>
  Creation and update ask the controller for its apply times and stop when the requested
  one is not among them: on a controller that never advertises the requested apply time
  they make no call but those that find the controller and ask for its apply times; they
  send no POST or PATCH, request no power operation and poll no job.
\<close>

lemma create_capability_gate:
  assumes never: "\<forall>t s times. env_GetOperationApplyTimeValues service t s = Inr times \<longrightarrow>
     \<not> checkOperationApplyTimes (Get_settings_apply_time d) times"
  shows "\<exists>mid. snd (snd (createRedfishStorageVolume service d t)) = t @ mid
    \<and> list_all (\<lambda>e. isMutex e \<or> isCapabilityLookup e) mid
    \<and> \<not> list_ex isSubmission mid \<and> \<not> list_ex isPowerOperation mid
    \<and> \<not> list_ex isWaitForJobToFinish mid"
proof (cases rule: createRedfishStorageVolume_body_cases
    [of service d "t @ [Lock (getRedfishServerEndpoint d)]"])
  case bad_config
  then show ?thesis by (simp add: createRedfishStorageVolume_unfold)
next
  case systems_failed
  then show ?thesis by (simp add: createRedfishStorageVolume_unfold)
next
  case (storage_failed system)
  then show ?thesis by (simp add: createRedfishStorageVolume_unfold)
next
  case (capability_failed system storage)
  then show ?thesis by (simp add: createRedfishStorageVolume_unfold)
next
  case (drives_failed system storage times)
  with never show ?thesis by blast
next
  case (rejected system storage times drives sub err)
  with never show ?thesis by blast
next
  case (reset_failed system storage times drives sub jobID)
  with never show ?thesis by blast
next
  case (polled system storage times drives sub jobID rest)
  with never show ?thesis by blast
qed

lemma update_capability_gate:
  assumes never: "\<forall>t s times. env_GetOperationApplyTimeValues service t s = Inr times \<longrightarrow>
     \<not> checkOperationApplyTimes (Get_settings_apply_time d) times"
  shows "\<exists>mid. snd (snd (updateRedfishStorageVolume service d t)) = t @ mid
    \<and> list_all (\<lambda>e. isMutex e \<or> isCapabilityLookup e) mid
    \<and> \<not> list_ex isSubmission mid \<and> \<not> list_ex isPowerOperation mid
    \<and> \<not> list_ex isWaitForJobToFinish mid"
proof (cases rule: updateRedfishStorageVolume_body_cases
    [of service d "t @ [Lock (getRedfishServerEndpoint d)]"])
  case bad_config
  then show ?thesis by (simp add: updateRedfishStorageVolume_unfold)
next
  case systems_failed
  then show ?thesis by (simp add: updateRedfishStorageVolume_unfold)
next
  case (storage_failed system)
  then show ?thesis by (simp add: updateRedfishStorageVolume_unfold)
next
  case (capability_failed system storage)
  then show ?thesis by (simp add: updateRedfishStorageVolume_unfold)
next
  case (rejected system storage times tcap err)
  with never show ?thesis by blast
next
  case (reset_failed system storage times tcap jobID)
  with never show ?thesis by blast
next
  case (polled system storage times tcap jobID)
  with never show ?thesis by blast
qed

text \<open>
  C2: a mutation whose apply time is not among those the controller advertises is to be
  rejected before its request is sent. Creation and update do so (the two lemmas above).
  Deletion does not: \<^verbatim>\<open>deleteRedfishStorageVolume\<close> reads
  \<^verbatim>\<open>settings_apply_time\<close> and never asks the controller for its apply times.
  Here the controller advertises \<^verbatim>\<open>Immediate\<close> only and the resource asks for
  \<^verbatim>\<open>OnReset\<close>: the DELETE request is sent, the server is restarted and the
  job is polled.
\<close>

theorem delete_skips_capability_check:
  "env_GetOperationApplyTimeValues immediate_only_service [] raid1 = Inr [''Immediate'']
   \<and> \<not> checkOperationApplyTimes (Get_settings_apply_time example_d) [''Immediate'']
   \<and> deleteRedfishStorageVolume immediate_only_service example_d [] =
       (Return [], example_d,
        [Lock ''https://bmc-1'', Delete ''/Volumes/1'', PowerOperation ''ForceRestart'' 120 10,
         WaitForJobToFinish ''/Tasks/JID_1'' 10 1200, Unlock ''https://bmc-1''])"
  by (simp add: examples run_delete)

subsection \<open>Job polling\<close>

text \<open>
  A mutation calls \<^verbatim>\<open>WaitForJobToFinish\<close> at most once, with the interval
  \<^verbatim>\<open>intervalStorageVolumeJobCheckTime\<close> and the configured job timeout.
\<close>

lemma create_poll_parameters:
  "\<exists>mid. snd (snd (createRedfishStorageVolume service d t)) = t @ mid
    \<and> (filter isWaitForJobToFinish mid = [] \<or>
        (\<exists>jobID. filter isWaitForJobToFinish mid =
           [WaitForJobToFinish jobID intervalStorageVolumeJobCheckTime (Get_volume_job_timeout d)]))"
  by (rule createRedfishStorageVolume_body_cases
        [of service d "t @ [Lock (getRedfishServerEndpoint d)]"])
     (auto simp add: createRedfishStorageVolume_unfold reset_events_def submit_traces)

lemma update_poll_parameters:
  "\<exists>mid. snd (snd (updateRedfishStorageVolume service d t)) = t @ mid
    \<and> (filter isWaitForJobToFinish mid = [] \<or>
        (\<exists>jobID. filter isWaitForJobToFinish mid =
           [WaitForJobToFinish jobID intervalStorageVolumeJobCheckTime (Get_volume_job_timeout d)]))"
  by (rule updateRedfishStorageVolume_body_cases
        [of service d "t @ [Lock (getRedfishServerEndpoint d)]"])
     (auto simp add: updateRedfishStorageVolume_unfold reset_events_def submit_traces)

lemma delete_poll_parameters:
  "\<exists>mid. snd (snd (deleteRedfishStorageVolume service d t)) = t @ mid
    \<and> (filter isWaitForJobToFinish mid = [] \<or>
        (\<exists>jobID. filter isWaitForJobToFinish mid =
           [WaitForJobToFinish jobID intervalStorageVolumeJobCheckTime (Get_volume_job_timeout d)]))"
  by (rule deleteRedfishStorageVolume_body_cases
        [of service "t @ [Lock (getRedfishServerEndpoint d)]" d])
     (auto simp add: deleteRedfishStorageVolume_unfold reset_events_def submit_traces)

lemma poll_terminates:
  assumes "0 < pollInterval"
  shows "\<exists>state finished.
     WaitForJobToFinish_poll job pollInterval jobTimeout elapsed = Some (state, finished)
     \<and> state \<noteq> Running
     \<and> (elapsed \<le> jobTimeout \<longrightarrow> finished \<le> jobTimeout + pollInterval)
     \<and> (state = TimedOut \<longrightarrow> jobTimeout < finished)
     \<and> (state \<noteq> TimedOut \<longrightarrow> finished \<le> jobTimeout)"
proof (induction "Suc jobTimeout - elapsed" arbitrary: elapsed rule: less_induct)
  case less
  show ?case
  proof (cases "jobTimeout < elapsed + pollInterval")
    case True
    then show ?thesis
      by (subst WaitForJobToFinish_poll.simps) simp
  next
    case False
    show ?thesis
    proof (cases "job (elapsed + pollInterval)")
      case JobRunning
      from False assms have "Suc jobTimeout - (elapsed + pollInterval) < Suc jobTimeout - elapsed"
        by arith
      from less [OF this] obtain state finished where
        r: "WaitForJobToFinish_poll job pollInterval jobTimeout (elapsed + pollInterval)
              = Some (state, finished)"
          "state \<noteq> Running"
          "elapsed + pollInterval \<le> jobTimeout \<longrightarrow> finished \<le> jobTimeout + pollInterval"
          "state = TimedOut \<longrightarrow> jobTimeout < finished"
          "state \<noteq> TimedOut \<longrightarrow> finished \<le> jobTimeout"
        by blast
      have "WaitForJobToFinish_poll job pollInterval jobTimeout elapsed = Some (state, finished)"
        using False JobRunning r(1) by (subst WaitForJobToFinish_poll.simps) simp
      with r False show ?thesis by auto
    next
      case JobCompleted
      with False show ?thesis
        by (subst WaitForJobToFinish_poll.simps) simp
    next
      case (JobFailed message)
      with False show ?thesis
        by (subst WaitForJobToFinish_poll.simps) simp
    qed
  qed
qed

text \<open>
  C7: with a positive poll interval the poller returns, whatever the job does: it ends in
  \<open>Completed\<close>, \<open>Failed\<close> or \<open>TimedOut\<close>, never later than the job timeout
  plus one poll interval after its start. It reports \<open>TimedOut\<close> only when its own clock
  has passed the job timeout, and the other two results only within the timeout. The
  mutations poll with \<^verbatim>\<open>intervalStorageVolumeJobCheckTime\<close>, which is 10 seconds.
\<close>

theorem job_polling_terminates:
  "0 < pollInterval \<Longrightarrow>
   \<exists>state finished.
     WaitForJobToFinish_poll job pollInterval jobTimeout 0 = Some (state, finished)
     \<and> state \<noteq> Running
     \<and> finished \<le> jobTimeout + pollInterval
     \<and> (state = TimedOut \<longrightarrow> jobTimeout < finished)
     \<and> (state \<noteq> TimedOut \<longrightarrow> finished \<le> jobTimeout)"
  using poll_terminates [of pollInterval job jobTimeout 0] by auto

theorem job_polling_terminates_witness:
  "0 < nat intervalStorageVolumeJobCheckTime
   \<and> WaitForJobToFinish_poll (job_after 20) (nat intervalStorageVolumeJobCheckTime)
        (nat defaultStorageVolumeJobTimeout) 0 = Some (Completed, 20)
   \<and> WaitForJobToFinish_poll (\<lambda>now. JobRunning) (nat intervalStorageVolumeJobCheckTime) 25 0 =
        Some (TimedOut, 30)
   \<and> WaitForJobToFinish_poll (\<lambda>now. JobFailed ''disk not found'')
        (nat intervalStorageVolumeJobCheckTime) 25 0 = Some (Failed ''disk not found'', 10)"
  using job_polling_terminates [of "nat intervalStorageVolumeJobCheckTime" "job_after 20"
      "nat defaultStorageVolumeJobTimeout"]
  by (simp add: intervalStorageVolumeJobCheckTime_def defaultStorageVolumeJobTimeout_def
      WaitForJobToFinish_poll.simps)

end
